theory Spec2Isabelle
  imports
    Complex_Main
    "HOL-Library.Multiset"
    "HOL-Library.Product_Lexorder"
begin

section \<open>Exceptions\<close>

text \<open>
  The notebooks raise \<^verbatim>\<open>ValueError\<close> themselves, with a message. The other
  exceptions come from the libraries and are told apart by their class only:
  \<^verbatim>\<open>KeyError\<close> for a column label that is not there, \<^verbatim>\<open>AttributeError\<close> for the
  \<^verbatim>\<open>.dt\<close> accessor on something that is not a column of datetimes,
  \<^verbatim>\<open>TypeError\<close> for values that cannot be compared or added, and
  \<^verbatim>\<open>OverflowError\<close> for a date or timestamp outside the range of its type.
  \<open>ReferenceError\<close> stands for a reference that names no object of the store; no
  reference a program holds is of that kind. \<open>OtherError\<close> is any other exception,
  such as one raised by the loader of the raw data.
\<close>

datatype error =
    ValueError string
  | KeyError
  | AttributeError
  | TypeError
  | OverflowError
  | ReferenceError
  | OtherError string

section \<open>Dates and times\<close>

text \<open>
  A point of the calendar is the number of microseconds since 0001-01-01 00:00:00 of
  the proleptic Gregorian calendar. The calendar functions follow the integer arithmetic
  of Python's \<^verbatim>\<open>datetime\<close> module (\<^verbatim>\<open>_ymd2ord\<close>, \<^verbatim>\<open>_ord2ymd\<close>); day 1 is
  0001-01-01, a Monday.
\<close>

definition us_per_hour :: int where
  "us_per_hour = 3600 * 1000000"

definition us_per_day :: int where
  "us_per_day = 24 * us_per_hour"

definition timedelta_weeks :: "int \<Rightarrow> int" where
  "timedelta_weeks w = w * 7 * us_per_day"

definition is_leap :: "int \<Rightarrow> bool" where
  "is_leap year = (year mod 4 = 0 \<and> (year mod 100 \<noteq> 0 \<or> year mod 400 = 0))"

definition days_before_year :: "int \<Rightarrow> int" where
  "days_before_year year =
     (let y = year - 1 in y * 365 + y div 4 - y div 100 + y div 400)"

definition DAYS_IN_MONTH :: "int list" where
  "DAYS_IN_MONTH = [-1, 31, 28, 31, 30, 31, 30, 31, 31, 30, 31, 30, 31]"

definition DAYS_BEFORE_MONTH :: "int list" where
  "DAYS_BEFORE_MONTH = [-1, 0, 31, 59, 90, 120, 151, 181, 212, 243, 273, 304, 334]"

definition days_before_month :: "int \<Rightarrow> int \<Rightarrow> int" where
  "days_before_month year month =
     DAYS_BEFORE_MONTH ! nat month + (if month > 2 \<and> is_leap year then 1 else 0)"

definition ymd2ord :: "int \<Rightarrow> int \<Rightarrow> int \<Rightarrow> int" where
  "ymd2ord year month day = days_before_year year + days_before_month year month + day"

definition ord2ymd :: "int \<Rightarrow> int \<times> int \<times> int" where
  "ord2ymd ordinal =
     (let n = ordinal - 1;
          n400 = n div 146097; n = n mod 146097;
          year = n400 * 400 + 1;
          n100 = n div 36524; n = n mod 36524;
          n4 = n div 1461; n = n mod 1461;
          n1 = n div 365; n = n mod 365;
          year = year + n100 * 100 + n4 * 4 + n1
      in if n1 = 4 \<or> n100 = 4 then (year - 1, 12, 31)
         else
           let leapyear = (n1 = 3 \<and> (n4 \<noteq> 24 \<or> n100 = 3));
               month = (n + 50) div 32;
               preceding = DAYS_BEFORE_MONTH ! nat month
                             + (if month > 2 \<and> leapyear then 1 else 0)
           in if preceding > n
              then let month = month - 1;
                       preceding = preceding
                         - (DAYS_IN_MONTH ! nat month
                              + (if month = 2 \<and> leapyear then 1 else 0))
                   in (year, month, n - preceding + 1)
              else (year, month, n - preceding + 1))"

text \<open>The point of the calendar at a full hour of a day, for valid fields.\<close>

definition mk_datetime :: "int \<Rightarrow> int \<Rightarrow> int \<Rightarrow> int \<Rightarrow> int" where
  "mk_datetime year month day hour =
     (ymd2ord year month day - 1) * us_per_day + hour * us_per_hour"

definition toordinal :: "int \<Rightarrow> int" where
  "toordinal t = t div us_per_day + 1"

definition dt_year :: "int \<Rightarrow> int" where
  "dt_year t = fst (ord2ymd (toordinal t))"

definition dt_month :: "int \<Rightarrow> int" where
  "dt_month t = fst (snd (ord2ymd (toordinal t)))"

definition dt_hour :: "int \<Rightarrow> int" where
  "dt_hour t = (t div us_per_hour) mod 24"

definition dt_dayofweek :: "int \<Rightarrow> int" where
  "dt_dayofweek t = (toordinal t + 6) mod 7"

text \<open>
  A Python \<^verbatim>\<open>datetime\<close> is the wall-clock time it shows and, when it is aware, its
  offset from UTC in microseconds (a time zone is a fixed offset here); a naive one has
  no offset. \<^verbatim>\<open>datetime.min\<close> is the point 0.
\<close>

record datetime =
  wall :: int
  utcoffset :: "int option"

definition naive :: "int \<Rightarrow> datetime" where
  "naive t = \<lparr>wall = t, utcoffset = None\<rparr>"

text \<open>
  \<^verbatim>\<open>a >= b\<close>: two naive datetimes compare by their wall-clock times, two aware ones by
  their UTC times, and a naive one cannot be compared with an aware one.
\<close>

definition datetime_ge :: "datetime \<Rightarrow> datetime \<Rightarrow> error + bool" where
  "datetime_ge a b =
     (case (utcoffset a, utcoffset b) of
        (None, None) \<Rightarrow> Inr (wall a \<ge> wall b)
      | (Some oa, Some ob) \<Rightarrow> Inr (wall a - oa \<ge> wall b - ob)
      | _ \<Rightarrow> Inl TypeError)"

text \<open>
  \<^verbatim>\<open>d - timedelta\<close> moves the wall-clock time and keeps the offset; a result before
  \<^verbatim>\<open>datetime.min\<close> raises \<^verbatim>\<open>OverflowError\<close>.
\<close>

definition datetime_sub :: "datetime \<Rightarrow> int \<Rightarrow> error + datetime" where
  "datetime_sub d delta =
     (if wall d - delta < 0 then Inl OverflowError
      else Inr (d\<lparr>wall := wall d - delta\<rparr>))"

text \<open>\<^verbatim>\<open>d.replace(tzinfo=None)\<close>: the wall-clock time, naive.\<close>

definition replace_tzinfo_None :: "datetime \<Rightarrow> int" where
  "replace_tzinfo_None d = wall d"

text \<open>
  A timestamp of a table column has nanosecond resolution in a signed 64-bit count from
  1970-01-01; the last whole microsecond it can hold is \<open>Timestamp_max\<close>.
\<close>

definition epoch :: int where
  "epoch = mk_datetime 1970 1 1 0"

definition Timestamp_max :: int where
  "Timestamp_max = epoch + (2 ^ 63 - 1) div 1000"

section \<open>Numbers\<close>

text \<open>
  A numeric column has one of the library's default types, 64-bit integers or 64-bit
  floats. Its cell holds a number, the missing value \<^verbatim>\<open>NaN\<close>, or an infinity.
  The sign of a zero is not kept.
\<close>

datatype num = Num rat | NaN | PosInf | NegInf

text \<open>
  Rounding of an exact value to the nearest 64-bit float, ties to the even mantissa,
  with gradual underflow and overflow to infinity. The binary exponent of a positive
  value is found by halving or doubling it, at most 1100 times: beyond that the value
  overflows or is subnormal whatever the exponent.
\<close>

definition round_half_even :: "rat \<Rightarrow> int" where
  "round_half_even q =
     (let f = \<lfloor>q\<rfloor>; d = q - of_int f
      in if d < 1 / 2 then f
         else if 1 / 2 < d then f + 1
         else if even f then f else f + 1)"

fun log2_up :: "nat \<Rightarrow> rat \<Rightarrow> int" where
  "log2_up 0 q = 0"
| "log2_up (Suc n) q = (if q < 2 then 0 else 1 + log2_up n (q / 2))"

fun log2_down :: "nat \<Rightarrow> rat \<Rightarrow> int" where
  "log2_down 0 q = 0"
| "log2_down (Suc n) q = (if 1 \<le> q then 0 else log2_down n (2 * q) - 1)"

definition floor_log2 :: "rat \<Rightarrow> int" where
  "floor_log2 q = (if 1 \<le> q then log2_up 1100 q else log2_down 1100 q)"

definition binary64 :: "rat \<Rightarrow> num" where
  "binary64 q =
     (if q = 0 then Num 0
      else
        let e = floor_log2 \<bar>q\<bar>;
            p = max e (- 1022) - 52;
            m = round_half_even (q / 2 powi p);
            r = of_int m * 2 powi p
        in if 2 powi 1024 \<le> \<bar>r\<bar> then (if 0 < q then PosInf else NegInf) else Num r)"

section \<open>DataFrames\<close>

text \<open>
  A column (a \<^verbatim>\<open>Series\<close>) is numeric or holds datetimes, and lists its cells top to
  bottom; a missing datetime (\<^verbatim>\<open>NaT\<close>) is \<open>None\<close>. A DataFrame is the list of its
  labelled columns, left to right; a label may be repeated.
\<close>

datatype series = Numeric "num list" | Datetimes "int option list"

type_synonym frame = "(string \<times> series) list"

fun length_series :: "series \<Rightarrow> nat" where
  "length_series (Numeric xs) = length xs"
| "length_series (Datetimes ts) = length ts"

definition columns :: "frame \<Rightarrow> string list" where
  "columns X = map fst X"

text \<open>The columns under a label, with their label and alone.\<close>

definition labelled :: "frame \<Rightarrow> string \<Rightarrow> frame" where
  "labelled X col = filter (\<lambda>(l, s). l = col) X"

definition columns_named :: "frame \<Rightarrow> string \<Rightarrow> series list" where
  "columns_named X col = map snd (labelled X col)"

text \<open>
  \<^verbatim>\<open>X[col]\<close> for one label: \<^verbatim>\<open>KeyError\<close> when no column has it, the column when
  one has it, and the DataFrame of the columns that have it when it is repeated.
\<close>

datatype selection = Column series | Table frame

definition getitem :: "frame \<Rightarrow> string \<Rightarrow> error + selection" where
  "getitem X col =
     (case labelled X col of
        [] \<Rightarrow> Inl KeyError
      | [(l, s)] \<Rightarrow> Inr (Column s)
      | cs \<Rightarrow> Inr (Table cs))"

text \<open>
  \<^verbatim>\<open>X[cols]\<close> for a list of labels: for each label in turn, every column that has
  it; \<^verbatim>\<open>KeyError\<close> when a label has none.
\<close>

definition getitems :: "frame \<Rightarrow> string list \<Rightarrow> error + frame" where
  "getitems X cols =
     (if list_all (\<lambda>c. c \<in> set (columns X)) cols
      then Inr (concat (map (labelled X) cols))
      else Inl KeyError)"

text \<open>
  \<^verbatim>\<open>X[col] = s\<close>: every column that has the label is replaced where it stands; a
  new label is appended as the last column.
\<close>

definition setitem :: "frame \<Rightarrow> string \<Rightarrow> series \<Rightarrow> frame" where
  "setitem X col s =
     (if col \<in> set (columns X)
      then map (\<lambda>(l, v). if l = col then (l, s) else (l, v)) X
      else X @ [(col, s)])"

text \<open>
  \<^verbatim>\<open>X.drop(columns=cols)\<close>: every label must exist; all columns that have one of
  the labels go.
\<close>

definition drop_columns :: "frame \<Rightarrow> string list \<Rightarrow> error + frame" where
  "drop_columns X cols =
     (if list_all (\<lambda>c. c \<in> set (columns X)) cols
      then Inr (filter (\<lambda>(l, s). l \<notin> set cols) X)
      else Inl KeyError)"

text \<open>Every column of a frame has as many cells as the frame has rows.\<close>

definition nrows_is :: "frame \<Rightarrow> nat \<Rightarrow> bool" where
  "nrows_is X n = list_all (\<lambda>(l, s). length_series s = n) X"

section \<open>The mean of each row\<close>

text \<open>The rows of a list of columns: row \<open>i\<close> lists cell \<open>i\<close> of each column.\<close>

fun rows_of :: "'a list list \<Rightarrow> 'a list list" where
  "rows_of [] = []"
| "rows_of [s] = map (\<lambda>c. [c]) s"
| "rows_of (s # ss) = map (\<lambda>(c, r). c # r) (zip s (rows_of ss))"

fun is_Numeric :: "series \<Rightarrow> bool" where
  "is_Numeric (Numeric xs) = True"
| "is_Numeric (Datetimes ts) = False"

fun numbers :: "series \<Rightarrow> num list" where
  "numbers (Numeric xs) = xs"
| "numbers (Datetimes ts) = []"

fun has_timestamp :: "series \<Rightarrow> bool" where
  "has_timestamp (Numeric xs) = False"
| "has_timestamp (Datetimes ts) = list_ex (\<lambda>t. t \<noteq> None) ts"

text \<open>
  What the library computes is a parameter where it depends on the library's build:
  \<open>float_mean\<close> is the 64-bit float mean of a row of numbers (the order in which the
  floats are added decides the last bit), and \<open>other_mean\<close> is the mean of the rows
  of columns that are not all numeric, \<open>None\<close> when it raises \<^verbatim>\<open>TypeError\<close>.
\<close>

record library =
  float_mean :: "num list \<Rightarrow> num"
  other_mean :: "series list \<Rightarrow> series option"

fun is_whole :: "num \<Rightarrow> bool" where
  "is_whole (Num r) = (r = of_int \<lfloor>r\<rfloor>)"
| "is_whole x = False"

fun magnitude :: "num \<Rightarrow> rat" where
  "magnitude (Num r) = \<bar>r\<bar>"
| "magnitude x = 0"

fun the_value :: "num \<Rightarrow> rat" where
  "the_value (Num r) = r"
| "the_value x = 0"

text \<open>
  Whole numbers whose magnitudes add up to at most \<open>2 ^ 53\<close> are added without any
  rounding, in whatever order.
\<close>

definition exact_sum :: "num list \<Rightarrow> bool" where
  "exact_sum vs = (list_all is_whole vs \<and> sum_list (map magnitude vs) \<le> 2 ^ 53)"

text \<open>
  The mean of one row with the library's default \<^verbatim>\<open>skipna=True\<close>: missing values
  are left out of both the sum and the count, and a row with no value at all has the
  mean \<^verbatim>\<open>NaN\<close>. The sum is divided by the count in 64-bit floats.
\<close>

definition nanmean :: "library \<Rightarrow> num list \<Rightarrow> num" where
  "nanmean lib cells =
     (let vs = filter (\<lambda>c. c \<noteq> NaN) cells
      in if vs = [] then NaN
         else if exact_sum vs
         then binary64 (sum_list (map the_value vs) / of_nat (length vs))
         else float_mean lib vs)"

text \<open>
  \<^verbatim>\<open>.mean(axis=1)\<close> of the selected columns. Numeric columns give a numeric column.
  A timestamp in a row that also has a numeric cell cannot be added to it.
\<close>

definition mean_axis1 :: "library \<Rightarrow> series list \<Rightarrow> error + series" where
  "mean_axis1 lib ss =
     (if list_all is_Numeric ss
      then Inr (Numeric (map (nanmean lib) (rows_of (map numbers ss))))
      else if list_ex is_Numeric ss \<and> list_ex has_timestamp ss then Inl TypeError
      else (case other_mean lib ss of None \<Rightarrow> Inl TypeError | Some m \<Rightarrow> Inr m))"

section \<open>The rolling-average feature\<close>

text \<open>Decimal rendering of a number inside an f-string.\<close>

definition digit_char :: "nat \<Rightarrow> char" where
  "digit_char d = ''0123456789'' ! d"

fun str_nat :: "nat \<Rightarrow> string" where
  "str_nat n = (if n < 10 then [digit_char n] else str_nat (n div 10) @ [digit_char (n mod 10)])"

definition last_4_weeks_columns :: "string list" where
  "last_4_weeks_columns =
     [''rides_t-'' @ str_nat (7 * 24),
      ''rides_t-'' @ str_nat (14 * 24),
      ''rides_t-'' @ str_nat (21 * 24),
      ''rides_t-'' @ str_nat (28 * 24)]"

text \<open>The loop over the required columns: the first one that is missing raises.\<close>

fun check_columns :: "string list \<Rightarrow> frame \<Rightarrow> error option" where
  "check_columns [] X = None"
| "check_columns (col # cols) X =
     (if col \<notin> set (columns X)
      then Some (ValueError (''Missing required column: '' @ col))
      else check_columns cols X)"

text \<open>
  The contents of \<open>X\<close> after \<^verbatim>\<open>average_rides_last_4_weeks(X)\<close>, or the exception
  raised.
\<close>

definition average_rides_last_4_weeks :: "library \<Rightarrow> frame \<Rightarrow> error + frame" where
  "average_rides_last_4_weeks lib X =
     (case check_columns last_4_weeks_columns X of
        Some e \<Rightarrow> Inl e
      | None \<Rightarrow>
          (case getitems X last_4_weeks_columns of
             Inl e \<Rightarrow> Inl e
           | Inr selected \<Rightarrow>
               (case mean_axis1 lib (map snd selected) of
                  Inl e \<Rightarrow> Inl e
                | Inr m \<Rightarrow> Inr (setitem X ''average_rides_last_4_weeks'' m))))"

text \<open>The columns the mean is taken over: every column under one of the four labels.\<close>

definition lag_columns :: "frame \<Rightarrow> series list" where
  "lag_columns X = concat (map (columns_named X) last_4_weeks_columns)"

text \<open>The lag values of row \<open>i\<close>: cell \<open>i\<close> of each of these columns.\<close>

definition lag_row :: "frame \<Rightarrow> nat \<Rightarrow> num list" where
  "lag_row X i = map (\<lambda>s. numbers s ! i) (lag_columns X)"

section \<open>The hour and day-of-week extractor\<close>

text \<open>
  The \<^verbatim>\<open>.dt\<close> accessor exists on a column of datetimes only: not on a numeric
  column, and not on the DataFrame that a repeated label selects.
\<close>

fun dt_accessor :: "selection \<Rightarrow> error + int option list" where
  "dt_accessor (Column (Datetimes ts)) = Inr ts"
| "dt_accessor (Column (Numeric xs)) = Inl AttributeError"
| "dt_accessor (Table cs) = Inl AttributeError"

text \<open>A field of a datetime is a number; of a missing datetime it is \<^verbatim>\<open>NaN\<close>.\<close>

definition field :: "(int \<Rightarrow> int) \<Rightarrow> int option \<Rightarrow> num" where
  "field f t = (case t of None \<Rightarrow> NaN | Some t \<Rightarrow> Num (of_int (f t)))"

definition dt_hour_series :: "selection \<Rightarrow> error + series" where
  "dt_hour_series s =
     (case dt_accessor s of
        Inl e \<Rightarrow> Inl e
      | Inr ts \<Rightarrow> Inr (Numeric (map (field dt_hour) ts)))"

definition dt_dayofweek_series :: "selection \<Rightarrow> error + series" where
  "dt_dayofweek_series s =
     (case dt_accessor s of
        Inl e \<Rightarrow> Inl e
      | Inr ts \<Rightarrow> Inr (Numeric (map (field dt_dayofweek) ts)))"

text \<open>The class has no attributes: an instance carries no data.\<close>

datatype TemporalFeatureEngineer = TemporalFeatureEngineer

definition fit :: "TemporalFeatureEngineer \<Rightarrow> 'x \<Rightarrow> 'y \<Rightarrow> TemporalFeatureEngineer" where
  "fit self X y = self"

text \<open>
  The contents of the frame that \<^verbatim>\<open>transform(X)\<close> returns, from the contents of
  \<open>X\<close>: the statements of the method, run on the copy.
\<close>

definition transform :: "TemporalFeatureEngineer \<Rightarrow> frame \<Rightarrow> error + frame" where
  "transform self X =
     (let X' = X
      in case getitem X' ''pickup_hour'' of
           Inl e \<Rightarrow> Inl e
         | Inr pickup_hour \<Rightarrow>
        (case dt_hour_series pickup_hour of
           Inl e \<Rightarrow> Inl e
         | Inr hour \<Rightarrow>
        (let X' = setitem X' ''hour'' hour
         in case getitem X' ''pickup_hour'' of
              Inl e \<Rightarrow> Inl e
            | Inr pickup_hour \<Rightarrow>
           (case dt_dayofweek_series pickup_hour of
              Inl e \<Rightarrow> Inl e
            | Inr day_of_week \<Rightarrow>
           (let X' = setitem X' ''day_of_week'' day_of_week
            in drop_columns X' [''pickup_hour'', ''pickup_location_id''])))))"

section \<open>Objects: which DataFrame a call reads and writes\<close>

text \<open>
  A store lists the DataFrame objects alive; a reference is an object's position in it.
  A new object goes to the end, so no reference held before changes its meaning.
\<close>

type_synonym ref = nat

type_synonym store = "frame list"

definition deref :: "store \<Rightarrow> ref \<Rightarrow> error + frame" where
  "deref h r = (if r < length h then Inr (h ! r) else Inl ReferenceError)"

definition alloc :: "store \<Rightarrow> frame \<Rightarrow> ref \<times> store" where
  "alloc h X = (length h, h @ [X])"

text \<open>\<^verbatim>\<open>X.copy()\<close>: a new object with the same contents.\<close>

definition copy_obj :: "ref \<Rightarrow> store \<Rightarrow> (error + ref) \<times> store" where
  "copy_obj X h =
     (case deref h X of
        Inl e \<Rightarrow> (Inl e, h)
      | Inr fr \<Rightarrow> (case alloc h fr of (X', h') \<Rightarrow> (Inr X', h')))"

definition getitem_obj :: "ref \<Rightarrow> string \<Rightarrow> store \<Rightarrow> error + selection" where
  "getitem_obj X col h = (case deref h X of Inl e \<Rightarrow> Inl e | Inr fr \<Rightarrow> getitem fr col)"

text \<open>\<^verbatim>\<open>X[col] = s\<close> writes into the object \<open>X\<close> names.\<close>

definition setitem_obj :: "ref \<Rightarrow> string \<Rightarrow> series \<Rightarrow> store \<Rightarrow> (error + unit) \<times> store" where
  "setitem_obj X col s h =
     (case deref h X of
        Inl e \<Rightarrow> (Inl e, h)
      | Inr fr \<Rightarrow> (Inr (), h[X := setitem fr col s]))"

text \<open>\<^verbatim>\<open>X.drop(columns=cols)\<close> returns a new object and leaves \<open>X\<close> as it is.\<close>

definition drop_obj :: "ref \<Rightarrow> string list \<Rightarrow> store \<Rightarrow> (error + ref) \<times> store" where
  "drop_obj X cols h =
     (case deref h X of
        Inl e \<Rightarrow> (Inl e, h)
      | Inr fr \<Rightarrow>
          (case drop_columns fr cols of
             Inl e \<Rightarrow> (Inl e, h)
           | Inr fr' \<Rightarrow> (case alloc h fr' of (Y, h') \<Rightarrow> (Inr Y, h'))))"

text \<open>
  \<^verbatim>\<open>average_rides_last_4_weeks\<close> on objects: the check and the mean read the
  object, the assignment writes the new column into the same object, and the function
  returns the reference it was given.
\<close>

definition average_rides_last_4_weeks_obj ::
  "library \<Rightarrow> ref \<Rightarrow> store \<Rightarrow> (error + ref) \<times> store" where
  "average_rides_last_4_weeks_obj lib X h =
     (case deref h X of
        Inl e \<Rightarrow> (Inl e, h)
      | Inr fr \<Rightarrow>
          (case check_columns last_4_weeks_columns fr of
             Some e \<Rightarrow> (Inl e, h)
           | None \<Rightarrow>
               (case getitems fr last_4_weeks_columns of
                  Inl e \<Rightarrow> (Inl e, h)
                | Inr selected \<Rightarrow>
                    (case mean_axis1 lib (map snd selected) of
                       Inl e \<Rightarrow> (Inl e, h)
                     | Inr m \<Rightarrow>
                         (case setitem_obj X ''average_rides_last_4_weeks'' m h of
                            (Inl e, h') \<Rightarrow> (Inl e, h')
                          | (Inr u, h') \<Rightarrow> (Inr X, h'))))))"

text \<open>
  \<^verbatim>\<open>FunctionTransformer(func, validate=...)\<close>: without validation
  \<^verbatim>\<open>transform\<close> hands its argument to \<open>func\<close> as it is; with validation the
  input is first converted into a new array object.
\<close>

record function_transformer =
  func :: "ref \<Rightarrow> store \<Rightarrow> (error + ref) \<times> store"
  validate :: bool

definition FunctionTransformer_transform ::
  "function_transformer \<Rightarrow> ref \<Rightarrow> store \<Rightarrow> (error + ref) \<times> store" where
  "FunctionTransformer_transform self X h =
     (if validate self
      then (case copy_obj X h of
              (Inl e, h') \<Rightarrow> (Inl e, h')
            | (Inr X', h') \<Rightarrow> func self X' h')
      else func self X h)"

definition add_feature_average_rides_last_4_weeks :: "library \<Rightarrow> function_transformer" where
  "add_feature_average_rides_last_4_weeks lib =
     \<lparr>func = average_rides_last_4_weeks_obj lib, validate = False\<rparr>"

text \<open>\<^verbatim>\<open>TemporalFeatureEngineer.transform\<close> on objects, statement by statement.\<close>

definition transform_obj ::
  "TemporalFeatureEngineer \<Rightarrow> ref \<Rightarrow> store \<Rightarrow> (error + ref) \<times> store" where
  "transform_obj self X h =
     (case copy_obj X h of
        (Inl e, h1) \<Rightarrow> (Inl e, h1)
      | (Inr X', h1) \<Rightarrow>
     (case getitem_obj X' ''pickup_hour'' h1 of
        Inl e \<Rightarrow> (Inl e, h1)
      | Inr pickup_hour \<Rightarrow>
     (case dt_hour_series pickup_hour of
        Inl e \<Rightarrow> (Inl e, h1)
      | Inr hour \<Rightarrow>
     (case setitem_obj X' ''hour'' hour h1 of
        (Inl e, h2) \<Rightarrow> (Inl e, h2)
      | (Inr u, h2) \<Rightarrow>
     (case getitem_obj X' ''pickup_hour'' h2 of
        Inl e \<Rightarrow> (Inl e, h2)
      | Inr pickup_hour \<Rightarrow>
     (case dt_dayofweek_series pickup_hour of
        Inl e \<Rightarrow> (Inl e, h2)
      | Inr day_of_week \<Rightarrow>
     (case setitem_obj X' ''day_of_week'' day_of_week h2 of
        (Inl e, h3) \<Rightarrow> (Inl e, h3)
      | (Inr u, h3) \<Rightarrow>
          drop_obj X' [''pickup_hour'', ''pickup_location_id''] h3)))))))"

definition add_temporal_features :: TemporalFeatureEngineer where
  "add_temporal_features = TemporalFeatureEngineer"

section \<open>Batch fetching of raw rides\<close>

text \<open>
  A row of the rides table: the two columns the function reads, and the rest of the row.
  \<open>pickup_datetime\<close> is the timestamp as it reads once \<^verbatim>\<open>tz_localize(None)\<close> has
  taken its time zone away.
\<close>

record ride =
  pickup_datetime :: int
  pickup_location_id :: int

text \<open>An argument is a datetime or a string in ISO format.\<close>

datatype date_arg = Datetime datetime | IsoString string

text \<open>
  \<^verbatim>\<open>datetime.fromisoformat\<close> and the loader \<^verbatim>\<open>load_and_process_taxi_data\<close> of
  \<^verbatim>\<open>src.data_utils\<close> are not defined in the notebook: both are parameters, and
  either may raise.
\<close>

fun as_datetime :: "(string \<Rightarrow> error + datetime) \<Rightarrow> date_arg \<Rightarrow> error + datetime" where
  "as_datetime fromisoformat (Datetime d) = Inr d"
| "as_datetime fromisoformat (IsoString s) = fromisoformat s"

definition shift_pickup :: "int \<Rightarrow> 'a ride_scheme \<Rightarrow> 'a ride_scheme" where
  "shift_pickup delta r = r\<lparr>pickup_datetime := pickup_datetime r + delta\<rparr>"

text \<open>
  \<^verbatim>\<open>rides['pickup_datetime'] += timedelta\<close>: the addition raises
  \<^verbatim>\<open>OverflowError\<close> when a sum is beyond the last timestamp.
\<close>

definition add_timedelta :: "int \<Rightarrow> 'a ride_scheme list \<Rightarrow> error + 'a ride_scheme list" where
  "add_timedelta delta rides =
     (if list_ex (\<lambda>r. Timestamp_max < pickup_datetime r + delta) rides
      then Inl OverflowError
      else Inr (map (shift_pickup delta) rides))"

definition sort_values :: "'a ride_scheme list \<Rightarrow> 'a ride_scheme list" where
  "sort_values rides = sort_key (\<lambda>r. (pickup_location_id r, pickup_datetime r)) rides"

definition fetch_batch_raw_data ::
  "(string \<Rightarrow> error + datetime) \<Rightarrow> (int \<Rightarrow> int list \<Rightarrow> error + 'a ride_scheme list) \<Rightarrow>
   date_arg \<Rightarrow> date_arg \<Rightarrow> error + 'a ride_scheme list" where
  "fetch_batch_raw_data fromisoformat load_and_process_taxi_data from_date to_date =
     (case as_datetime fromisoformat from_date of
        Inl e \<Rightarrow> Inl e
      | Inr from_date \<Rightarrow>
     (case as_datetime fromisoformat to_date of
        Inl e \<Rightarrow> Inl e
      | Inr to_date \<Rightarrow>
     (case datetime_ge from_date to_date of
        Inl e \<Rightarrow> Inl e
      | Inr True \<Rightarrow> Inl (ValueError '''from_date' must be earlier than 'to_date'.'')
      | Inr False \<Rightarrow>
     (case datetime_sub from_date (timedelta_weeks 52) of
        Inl e \<Rightarrow> Inl e
      | Inr shifted_from \<Rightarrow>
     (case datetime_sub to_date (timedelta_weeks 52) of
        Inl e \<Rightarrow> Inl e
      | Inr shifted_to \<Rightarrow>
     (let historical_from_date = replace_tzinfo_None shifted_from;
          historical_to_date = replace_tzinfo_None shifted_to
      in
      (case load_and_process_taxi_data (dt_year historical_from_date)
              [dt_month historical_from_date] of
         Inl e \<Rightarrow> Inl e
       | Inr rides_from \<Rightarrow>
      (let rides_from =
             filter (\<lambda>r. pickup_datetime r \<ge> historical_from_date) rides_from
       in
       (case
          (if dt_month historical_to_date \<noteq> dt_month historical_from_date
           then
             (case load_and_process_taxi_data (dt_year historical_to_date)
                     [dt_month historical_to_date] of
                Inl e \<Rightarrow> Inl e
              | Inr rides_to \<Rightarrow>
                  (let rides_to =
                         filter (\<lambda>r. pickup_datetime r < historical_to_date) rides_to
                   in Inr (rides_from @ rides_to)))
           else Inr rides_from)
        of
          Inl e \<Rightarrow> Inl e
        | Inr rides \<Rightarrow>
            (case add_timedelta (timedelta_weeks 52) rides of
               Inl e \<Rightarrow> Inl e
             | Inr rides \<Rightarrow> Inr (sort_values rides)))))))))))"

section \<open>The time-based split\<close>











section \<open>The modelling notebooks\<close>

text \<open>
  The learners (\<^verbatim>\<open>fit\<close>, \<^verbatim>\<open>predict\<close>) and the metric
  \<^verbatim>\<open>mean_absolute_error\<close> are library functions and stay parameters. The last
  statement of each modelling cell calls \<^verbatim>\<open>log_model_to_mlflow\<close> of
  \<^verbatim>\<open>src.experiment_utils\<close>; a cell is modelled by the arguments of that call.
\<close>

record ('m, 'x, 's) log_call =
  logged_model :: 'm
  input_data :: 'x
  experiment_name :: string
  metric_name :: string
  score :: 's

definition xgboost_cell ::
  "(nat \<Rightarrow> 'm) \<Rightarrow> ('m \<Rightarrow> frame \<Rightarrow> series \<Rightarrow> 'm) \<Rightarrow> ('m \<Rightarrow> frame \<Rightarrow> 'p) \<Rightarrow> (series \<Rightarrow> 'p \<Rightarrow> 's) \<Rightarrow>
   frame \<Rightarrow> series \<Rightarrow> frame \<Rightarrow> series \<Rightarrow> ('m, frame, 's) log_call" where
  "xgboost_cell XGBRegressor fit_model predict mean_absolute_error
       X_train_only_numeric y_train X_test_only_numeric y_test =
     (let model = XGBRegressor 10;
          model = fit_model model X_train_only_numeric y_train;
          predictions = predict model X_test_only_numeric;
          test_mae = mean_absolute_error y_test predictions
      in \<lparr>logged_model = model, input_data = X_test_only_numeric,
          experiment_name = ''XGBoost'', metric_name = ''mean_absolute_error'',
          score = test_mae\<rparr>)"

definition lightgbm_cell ::
  "'m \<Rightarrow> ('m \<Rightarrow> frame \<Rightarrow> series \<Rightarrow> 'm) \<Rightarrow> ('m \<Rightarrow> frame \<Rightarrow> 'p) \<Rightarrow> (series \<Rightarrow> 'p \<Rightarrow> 's) \<Rightarrow>
   frame \<Rightarrow> series \<Rightarrow> frame \<Rightarrow> series \<Rightarrow> ('m, frame, 's) log_call" where
  "lightgbm_cell LGBMRegressor fit_model predict mean_absolute_error
       X_train_only_numeric y_train X_test_only_numeric y_test =
     (let model = LGBMRegressor;
          model = fit_model model X_train_only_numeric y_train;
          predictions = predict model X_test_only_numeric;
          test_mae = mean_absolute_error y_test predictions
      in \<lparr>logged_model = model, input_data = X_test_only_numeric,
          experiment_name = ''LGBMRegressor'', metric_name = ''mean_absolute_error'',
          score = test_mae\<rparr>)"

text \<open>
  \<^verbatim>\<open>make_pipeline(add_feature_average_rides_last_4_weeks, add_temporal_features,
  lgb.LGBMRegressor())\<close>: predicting runs the two transformers in turn on the object
  given and hands the resulting frame to the regressor.
\<close>

definition pipeline_predict ::
  "library \<Rightarrow> ('m \<Rightarrow> frame \<Rightarrow> 'p) \<Rightarrow> 'm \<Rightarrow> ref \<Rightarrow> store \<Rightarrow> (error + 'p) \<times> store" where
  "pipeline_predict lib predict regressor X h =
     (case FunctionTransformer_transform (add_feature_average_rides_last_4_weeks lib) X h of
        (Inl e, h1) \<Rightarrow> (Inl e, h1)
      | (Inr X1, h1) \<Rightarrow>
     (case transform_obj add_temporal_features X1 h1 of
        (Inl e, h2) \<Rightarrow> (Inl e, h2)
      | (Inr X2, h2) \<Rightarrow>
     (case deref h2 X2 of
        Inl e \<Rightarrow> (Inl e, h2)
      | Inr features \<Rightarrow> (Inr (predict regressor features), h2))))"

definition pipeline_cell ::
  "library \<Rightarrow> ('m \<Rightarrow> frame \<Rightarrow> 'p) \<Rightarrow> (series \<Rightarrow> 'p \<Rightarrow> 's) \<Rightarrow> 'm \<Rightarrow> ref \<Rightarrow> series \<Rightarrow> store \<Rightarrow>
   (error + ('m, ref, 's) log_call) \<times> store" where
  "pipeline_cell lib predict mean_absolute_error best_model X_test y_test h =
     (case pipeline_predict lib predict best_model X_test h of
        (Inl e, h') \<Rightarrow> (Inl e, h')
      | (Inr predictions, h') \<Rightarrow>
          (let test_mae = mean_absolute_error y_test predictions
           in (Inr \<lparr>logged_model = best_model, input_data = X_test,
                     experiment_name = ''LGBMRegressorHyper'',
                     metric_name = ''mean_absolute_error'',
                     score = test_mae\<rparr>, h')))"

section \<open>Example inputs\<close>

definition example_frame :: frame where
  "example_frame =
     [(''pickup_hour'',
         Datetimes [Some (mk_datetime 2023 9 1 13), Some (mk_datetime 2023 9 3 0)]),
      (''pickup_location_id'', Numeric [Num 4, Num 4]),
      (''rides_t-672'', Numeric [Num 5, Num 1]),
      (''rides_t-504'', Numeric [Num 3, Num 4]),
      (''rides_t-336'', Numeric [Num 2, Num 0]),
      (''rides_t-168'', Numeric [Num 1, Num 2]),
      (''target'', Numeric [Num 6, Num 3])]"

text \<open>
  A library whose float mean adds the values from left to right and rounds each sum and
  the quotient, and which raises on columns that are not all numeric.
\<close>

fun add64 :: "num \<Rightarrow> num \<Rightarrow> num" where
  "add64 (Num a) (Num b) = binary64 (a + b)"
| "add64 NaN y = NaN"
| "add64 x NaN = NaN"
| "add64 PosInf NegInf = NaN"
| "add64 NegInf PosInf = NaN"
| "add64 PosInf y = PosInf"
| "add64 NegInf y = NegInf"
| "add64 x PosInf = PosInf"
| "add64 x NegInf = NegInf"

fun div64 :: "num \<Rightarrow> nat \<Rightarrow> num" where
  "div64 (Num a) n = binary64 (a / of_nat n)"
| "div64 x n = x"

definition example_library :: library where
  "example_library =
     \<lparr>float_mean = (\<lambda>vs. div64 (foldl add64 (Num 0) vs) (length vs)),
      other_mean = (\<lambda>ss. None)\<rparr>"

text \<open>
  A frame with a missing lag value and a column \<^verbatim>\<open>average_rides_last_4_weeks\<close>
  from an earlier call; and the same with a second column under the label
  \<^verbatim>\<open>rides_t-168\<close>.
\<close>

definition example_frame_again :: frame where
  "example_frame_again =
     [(''rides_t-168'', Numeric [Num 1, Num 2]),
      (''average_rides_last_4_weeks'', Numeric [Num 0, Num 0]),
      (''rides_t-336'', Numeric [NaN, Num 0]),
      (''rides_t-504'', Numeric [Num 1, Num 4]),
      (''rides_t-672'', Numeric [Num 2, Num 1])]"

definition example_frame_repeated :: frame where
  "example_frame_repeated = example_frame_again @ [(''rides_t-168'', Numeric [NaN, Num 13])]"


text \<open>
  A loader that holds one ride of March 2023, at 2023-03-10 00:00, and nothing for any
  other month; and a parser that accepts no string.
\<close>

definition march_2023_loader :: "int \<Rightarrow> int list \<Rightarrow> error + ride list" where
  "march_2023_loader year months =
     (if year = 2023 \<and> months = [3]
      then Inr [\<lparr>pickup_datetime = mk_datetime 2023 3 10 0, pickup_location_id = 7\<rparr>]
      else Inr [])"

definition no_iso_string :: "string \<Rightarrow> error + datetime" where
  "no_iso_string s =
     Inl (ValueError (''Invalid isoformat string: '' @ [CHR 0x27] @ s @ [CHR 0x27]))"

text \<open>A loader with rides in March and April 2023, in no particular order.\<close>

definition example_loader :: "int \<Rightarrow> int list \<Rightarrow> error + ride list" where
  "example_loader year months =
     (if year = 2023 \<and> months = [3]
      then Inr [\<lparr>pickup_datetime = mk_datetime 2023 3 10 0, pickup_location_id = 7\<rparr>,
                \<lparr>pickup_datetime = mk_datetime 2023 3 5 12, pickup_location_id = 4\<rparr>,
                \<lparr>pickup_datetime = mk_datetime 2023 3 1 0, pickup_location_id = 4\<rparr>]
      else if year = 2023 \<and> months = [4]
      then Inr [\<lparr>pickup_datetime = mk_datetime 2023 4 1 6, pickup_location_id = 4\<rparr>,
                \<lparr>pickup_datetime = mk_datetime 2023 4 20 0, pickup_location_id = 1\<rparr>]
      else Inr [])"

section \<open>Columns, labels and assignments\<close>

lemma last_4_weeks_columns_eq:
  "last_4_weeks_columns = [''rides_t-168'', ''rides_t-336'', ''rides_t-504'', ''rides_t-672'']"
  by (simp add: last_4_weeks_columns_def digit_char_def)

lemma check_columns_None_iff:
  "check_columns cols X = None \<longleftrightarrow> set cols \<subseteq> set (columns X)"
  by (induction cols) auto

lemma check_columns_Some:
  "check_columns cols X = Some e \<Longrightarrow>
   \<exists>c\<in>set cols. c \<notin> set (columns X) \<and> e = ValueError (''Missing required column: '' @ c)"
  by (induction cols) (auto split: if_splits)

lemma list_all_in_columns: "list_all (\<lambda>c. c \<in> set (columns X)) cols \<longleftrightarrow> set cols \<subseteq> set (columns X)"
  by (auto simp: list_all_iff)

lemma labelled_Nil_iff: "labelled X c = [] \<longleftrightarrow> c \<notin> set (columns X)"
  by (induction X) (auto simp: labelled_def columns_def)

lemma labelled_fst: "(l, s) \<in> set (labelled X c) \<Longrightarrow> l = c"
  by (auto simp: labelled_def)

lemma labelled_subset: "set (labelled X c) \<subseteq> set X"
  by (auto simp: labelled_def)

lemma getitem_Inl_iff: "getitem X c = Inl e \<longleftrightarrow> c \<notin> set (columns X) \<and> e = KeyError"
  using labelled_Nil_iff [of X c]
  by (auto simp: getitem_def split: list.splits)

lemma getitem_Column_iff: "getitem X c = Inr (Column s) \<longleftrightarrow> labelled X c = [(c, s)]"
proof
  assume "getitem X c = Inr (Column s)"
  then obtain l where l: "labelled X c = [(l, s)]"
    by (auto simp: getitem_def split: list.splits)
  then have "(l, s) \<in> set (labelled X c)" by simp
  then have "l = c" by (rule labelled_fst)
  with l show "labelled X c = [(c, s)]" by simp
next
  assume "labelled X c = [(c, s)]"
  then show "getitem X c = Inr (Column s)" by (simp add: getitem_def)
qed

lemma getitem_Column_in_columns: "getitem X c = Inr (Column s) \<Longrightarrow> c \<in> set (columns X)"
  using labelled_Nil_iff [of X c] by (auto simp: getitem_Column_iff)

lemma getitems_present:
  "set cols \<subseteq> set (columns X) \<Longrightarrow> getitems X cols = Inr (concat (map (labelled X) cols))"
  by (simp add: getitems_def list_all_in_columns)

lemma getitems_Inl_iff:
  "getitems X cols = Inl e \<longleftrightarrow> \<not> set cols \<subseteq> set (columns X) \<and> e = KeyError"
  by (auto simp: getitems_def list_all_in_columns)

lemma map_snd_selected:
  "map snd (concat (map (labelled X) cols)) = concat (map (columns_named X) cols)"
  by (induction cols) (simp_all add: columns_named_def)

lemma columns_setitem:
  "columns (setitem X c s) = (if c \<in> set (columns X) then columns X else columns X @ [c])"
  by (auto simp: columns_def setitem_def split: prod.splits)

lemma length_setitem:
  "length (setitem X c s) = (if c \<in> set (columns X) then length X else Suc (length X))"
  by (simp add: setitem_def)

lemma nth_setitem_present:
  "c \<in> set (columns X) \<Longrightarrow> j < length X \<Longrightarrow>
   setitem X c s ! j = (if fst (X ! j) = c then (c, s) else X ! j)"
  by (auto simp: setitem_def split: prod.splits)

lemma setitem_absent: "c \<notin> set (columns X) \<Longrightarrow> setitem X c s = X @ [(c, s)]"
  by (simp add: setitem_def)

lemma labelled_map_replace_other:
  "c' \<noteq> c \<Longrightarrow>
   labelled (map (\<lambda>(l, v). if l = c then (l, s) else (l, v)) X) c' = labelled X c'"
  by (induction X) (auto simp: labelled_def split: if_splits)

lemma labelled_setitem_other: "c' \<noteq> c \<Longrightarrow> labelled (setitem X c s) c' = labelled X c'"
  by (auto simp: setitem_def labelled_map_replace_other) (simp add: labelled_def)

lemma labelled_map_replace_same:
  "labelled (map (\<lambda>(l, v). if l = c then (l, s) else (l, v)) X) c
     = replicate (length (labelled X c)) (c, s)"
  by (induction X) (auto simp: labelled_def)

lemma labelled_setitem_same:
  "labelled (setitem X c s) c = replicate (max 1 (length (labelled X c))) (c, s)"
proof (cases "c \<in> set (columns X)")
  case True
  then have "labelled X c \<noteq> []" by (simp add: labelled_Nil_iff)
  then have "max 1 (length (labelled X c)) = length (labelled X c)"
    by (cases "labelled X c") simp_all
  with True show ?thesis by (simp add: setitem_def labelled_map_replace_same)
next
  case False
  then have "labelled X c = []" by (simp add: labelled_Nil_iff)
  with False show ?thesis by (simp add: setitem_def labelled_def)
qed

lemma columns_named_setitem_same:
  "columns_named (setitem X c s) c = replicate (max 1 (length (columns_named X c))) s"
  by (simp add: columns_named_def labelled_setitem_same)

lemma columns_named_setitem_other:
  "c' \<noteq> c \<Longrightarrow> columns_named (setitem X c s) c' = columns_named X c'"
  by (simp add: columns_named_def labelled_setitem_other)

lemma getitem_setitem_other: "c' \<noteq> c \<Longrightarrow> getitem (setitem X c s) c' = getitem X c'"
  by (simp add: getitem_def labelled_setitem_other)

lemma drop_columns_present:
  "set cols \<subseteq> set (columns X) \<Longrightarrow>
   drop_columns X cols = Inr (filter (\<lambda>(l, s). l \<notin> set cols) X)"
  by (simp add: drop_columns_def list_all_in_columns)

lemma drop_columns_Inl_iff:
  "drop_columns X cols = Inl e \<longleftrightarrow> \<not> set cols \<subseteq> set (columns X) \<and> e = KeyError"
  by (auto simp: drop_columns_def list_all_in_columns)



lemma nrows_is_columns_named:
  "nrows_is X n \<Longrightarrow> s \<in> set (columns_named X c) \<Longrightarrow> length_series s = n"
  by (auto simp: nrows_is_def columns_named_def labelled_def list_all_iff)

section \<open>The mean of a row\<close>

lemma rows_of_nth:
  "ss \<noteq> [] \<Longrightarrow> \<forall>s\<in>set ss. length s = n \<Longrightarrow>
   rows_of ss = map (\<lambda>i. map (\<lambda>s. s ! i) ss) [0..<n]"
proof (induction ss rule: rows_of.induct)
  case 1
  then show ?case by simp
next
  case (2 s)
  then show ?case by (auto intro!: nth_equalityI)
next
  case (3 s v va)
  then have "rows_of (v # va) = map (\<lambda>i. map (\<lambda>s. s ! i) (v # va)) [0..<n]" by simp
  moreover from 3 have "length s = n" by simp
  ultimately show ?case by (auto intro!: nth_equalityI)
qed

lemma length_numbers: "is_Numeric s \<Longrightarrow> length (numbers s) = length_series s"
  by (cases s) simp_all

lemma mean_axis1_numeric:
  "list_all is_Numeric ss \<Longrightarrow>
   mean_axis1 lib ss = Inr (Numeric (map (nanmean lib) (rows_of (map numbers ss))))"
  by (simp add: mean_axis1_def)

lemma mean_axis1_Inl: "mean_axis1 lib ss = Inl e \<Longrightarrow> e = TypeError \<and> \<not> list_all is_Numeric ss"
  by (auto simp: mean_axis1_def split: if_splits option.splits)

lemma mean_axis1_mixed:
  "list_ex is_Numeric ss \<Longrightarrow> list_ex has_timestamp ss \<Longrightarrow> mean_axis1 lib ss = Inl TypeError"
proof -
  assume a: "list_ex is_Numeric ss" and b: "list_ex has_timestamp ss"
  from b obtain s where s: "s \<in> set ss" "has_timestamp s" by (auto simp: list_ex_iff)
  from s(2) have "\<not> is_Numeric s" by (cases s) simp_all
  with s(1) have "\<not> list_all is_Numeric ss"
    unfolding list_all_iff by blast
  with a b show ?thesis by (simp add: mean_axis1_def)
qed

lemma round_half_even_of_int: "round_half_even (of_int j) = j"
  by (simp add: round_half_even_def)

lemma log2_up_bound: "1 \<le> q \<Longrightarrow> 2 ^ nat (log2_up n q) \<le> q \<and> 0 \<le> log2_up n q"
proof (induction n arbitrary: q)
  case 0
  then show ?case by simp
next
  case (Suc n)
  show ?case
  proof (cases "q < 2")
    case True
    with Suc.prems show ?thesis by simp
  next
    case False
    then have "1 \<le> q / 2" by simp
    then have ih: "2 ^ nat (log2_up n (q / 2)) \<le> q / 2" "0 \<le> log2_up n (q / 2)"
      using Suc.IH by blast+
    from ih(2) have "nat (1 + log2_up n (q / 2)) = Suc (nat (log2_up n (q / 2)))" by simp
    with ih False show ?thesis by simp
  qed
qed

lemma log2_down_nonpos: "log2_down n q \<le> 0"
proof (induction n arbitrary: q)
  case 0
  then show ?case by simp
next
  case (Suc n)
  have "log2_down n (2 * q) \<le> 0" by (rule Suc.IH)
  then show ?case by simp
qed

lemma floor_log2_less:
  assumes "q < 2 ^ k" "0 < k"
  shows "floor_log2 q < int k"
proof (cases "1 \<le> q")
  case True
  then have b: "(2::rat) ^ nat (log2_up 1100 q) \<le> q" "0 \<le> log2_up 1100 q"
    using log2_up_bound by blast+
  from b(1) assms(1) have "(2::rat) ^ nat (log2_up 1100 q) < 2 ^ k"
    by (rule le_less_trans)
  then have "nat (log2_up 1100 q) < k" by simp
  with b(2) True show ?thesis by (simp add: floor_log2_def)
next
  case False
  have "log2_down 1100 q \<le> 0" by (rule log2_down_nonpos)
  with assms(2) False show ?thesis by (simp add: floor_log2_def)
qed

lemma binary64_exact:
  assumes "q / 2 powi (max (floor_log2 \<bar>q\<bar>) (- 1022) - 52) = of_int j"
    and "\<bar>q\<bar> < 2 powi 1024"
  shows "binary64 q = Num q"
proof (cases "q = 0")
  case True
  then show ?thesis by (simp add: binary64_def)
next
  case False
  let ?p = "max (floor_log2 \<bar>q\<bar>) (- 1022) - 52"
  have nz: "(2::rat) powi ?p \<noteq> 0" by simp
  have "of_int (round_half_even (q / 2 powi ?p)) * 2 powi ?p = q / 2 powi ?p * 2 powi ?p"
    using assms(1) by (simp only: round_half_even_of_int)
  also have "\<dots> = q" using nz by simp
  finally have r: "of_int (round_half_even (q / 2 powi ?p)) * 2 powi ?p = q" .
  show ?thesis
    unfolding binary64_def Let_def r
    using False assms(2) by simp
qed

lemma binary64_quarter:
  assumes "\<bar>k\<bar> < 2 ^ 53"
  shows "binary64 (of_int k / 4) = Num (of_int k / 4)"
proof -
  let ?q = "of_int k / 4 :: rat"
  let ?p = "max (floor_log2 \<bar>?q\<bar>) (- 1022) - 52"
  have "of_int \<bar>k\<bar> < (2::rat) ^ 53"
    using assms by (metis of_int_less_iff of_int_numeral of_int_power)
  then have small: "\<bar>?q\<bar> < 2 ^ 51" by simp
  then have "floor_log2 \<bar>?q\<bar> < int 51"
    by (rule floor_log2_less) simp
  then have p: "?p \<le> - 2" by simp
  define d where "d = nat (- ?p - 2)"
  with p have pd: "?p = - int (d + 2)" by simp
  have "(2::rat) powi ?p = inverse (2 ^ (d + 2))"
    unfolding pd by (simp only: power_int_minus power_int_of_nat)
  then have "?q / 2 powi ?p = of_int (k * 2 ^ d)"
    by (simp add: field_simps)
  moreover have "\<bar>?q\<bar> < 2 powi 1024"
  proof -
    have "(2::rat) ^ 51 \<le> 2 ^ 1024" by (rule power_increasing) simp_all
    with small have "\<bar>?q\<bar> < 2 ^ 1024" by (rule less_le_trans)
    then show ?thesis by simp
  qed
  ultimately show ?thesis by (rule binary64_exact)
qed

lemma binary64_int:
  assumes "\<bar>j\<bar> < 2 ^ 52"
  shows "binary64 (of_int j) = Num (of_int j)"
proof -
  let ?q = "of_int j :: rat"
  let ?p = "max (floor_log2 \<bar>?q\<bar>) (- 1022) - 52"
  have "of_int \<bar>j\<bar> < (2::rat) ^ 52"
    using assms by (metis of_int_less_iff of_int_numeral of_int_power)
  then have small: "\<bar>?q\<bar> < 2 ^ 52" by simp
  then have "floor_log2 \<bar>?q\<bar> < int 52"
    by (rule floor_log2_less) simp
  then have p: "?p \<le> 0" by simp
  define d where "d = nat (- ?p)"
  with p have pd: "?p = - int d" by simp
  have "(2::rat) powi ?p = inverse (2 ^ d)"
    unfolding pd by (simp only: power_int_minus power_int_of_nat)
  then have "?q / 2 powi ?p = of_int (j * 2 ^ d)"
    by (simp add: field_simps)
  moreover have "\<bar>?q\<bar> < 2 powi 1024"
  proof -
    have "(2::rat) ^ 52 \<le> 2 ^ 1024" by (rule power_increasing) simp_all
    with small have "\<bar>?q\<bar> < 2 ^ 1024" by (rule less_le_trans)
    then show ?thesis by simp
  qed
  ultimately show ?thesis by (rule binary64_exact)
qed

lemma binary64_quarter_le:
  assumes "\<bar>k\<bar> \<le> 2 ^ 53"
  shows "binary64 (of_int k / 4) = Num (of_int k / 4)"
proof (cases "\<bar>k\<bar> < 2 ^ 53")
  case True
  then show ?thesis by (rule binary64_quarter)
next
  case False
  with assms have "k = 2 ^ 53 \<or> k = - (2 ^ 53)" by auto
  then show ?thesis
  proof
    assume "k = 2 ^ 53"
    then have "(of_int k / 4 :: rat) = of_int (2 ^ 51)" by simp
    moreover have "binary64 (of_int (2 ^ 51)) = Num (of_int (2 ^ 51))"
      by (rule binary64_int) simp
    ultimately show ?thesis by simp
  next
    assume "k = - (2 ^ 53)"
    then have "(of_int k / 4 :: rat) = of_int (- (2 ^ 51))" by simp
    moreover have "binary64 (of_int (- (2 ^ 51))) = Num (of_int (- (2 ^ 51)))"
      by (rule binary64_int) simp
    ultimately show ?thesis by simp
  qed
qed

section \<open>Properties of the rolling-average feature\<close>

lemma nanmean_all_missing: "list_all (\<lambda>c. c = NaN) cells \<Longrightarrow> nanmean lib cells = NaN"
proof -
  assume "list_all (\<lambda>c. c = NaN) cells"
  then have "filter (\<lambda>c. c \<noteq> NaN) cells = []"
    by (simp add: list_all_iff filter_empty_conv)
  then show ?thesis by (simp add: nanmean_def)
qed

lemma nanmean_exact:
  assumes "filter (\<lambda>c. c \<noteq> NaN) cells = vs" "vs \<noteq> []" "exact_sum vs"
  shows "nanmean lib cells = binary64 (sum_list (map the_value vs) / of_nat (length vs))"
  using assms by (simp add: nanmean_def)

lemma nanmean_four_whole:
  assumes "\<bar>a\<bar> + \<bar>b\<bar> + \<bar>c\<bar> + \<bar>d\<bar> \<le> (2::int) ^ 53"
  shows "nanmean lib [Num (of_int a), Num (of_int b), Num (of_int c), Num (of_int d)]
           = Num (of_int (a + b + c + d) / 4)"
proof -
  let ?vs = "[Num (of_int a), Num (of_int b), Num (of_int c), Num (of_int d)]"
  have "of_int (\<bar>a\<bar> + \<bar>b\<bar> + \<bar>c\<bar> + \<bar>d\<bar>) \<le> (of_int (2 ^ 53) :: rat)"
    using assms by (simp only: of_int_le_iff)
  then have "sum_list (map magnitude ?vs) \<le> 2 ^ 53" by simp
  then have ex: "exact_sum ?vs" by (simp add: exact_sum_def)
  have "\<bar>a + b + c + d\<bar> \<le> 2 ^ 53" using assms by linarith
  then have "binary64 (of_int (a + b + c + d) / 4) = Num (of_int (a + b + c + d) / 4)"
    by (rule binary64_quarter_le)
  with ex show ?thesis by (simp add: nanmean_def add.assoc)
qed

lemma lag_columns_nonempty:
  assumes "set last_4_weeks_columns \<subseteq> set (columns X)"
  shows "lag_columns X \<noteq> []"
proof -
  from assms have "''rides_t-168'' \<in> set (columns X)" by (simp add: last_4_weeks_columns_eq)
  then have "labelled X ''rides_t-168'' \<noteq> []" by (simp add: labelled_Nil_iff)
  then show ?thesis by (simp add: lag_columns_def last_4_weeks_columns_eq columns_named_def)
qed

lemma lag_columns_length:
  "nrows_is X n \<Longrightarrow> s \<in> set (lag_columns X) \<Longrightarrow> length_series s = n"
  by (auto simp: lag_columns_def dest: nrows_is_columns_named)

lemma lag_rows:
  assumes present: "set last_4_weeks_columns \<subseteq> set (columns X)"
    and numeric: "list_all is_Numeric (lag_columns X)"
    and rows: "nrows_is X n"
  shows "rows_of (map numbers (lag_columns X)) = map (lag_row X) [0..<n]"
proof -
  have ne: "map numbers (lag_columns X) \<noteq> []"
    using present by (simp add: lag_columns_nonempty)
  have "\<forall>s\<in>set (map numbers (lag_columns X)). length s = n"
  proof
    fix v assume "v \<in> set (map numbers (lag_columns X))"
    then obtain s where s: "s \<in> set (lag_columns X)" "v = numbers s" by auto
    from s(1) numeric have "is_Numeric s" by (simp add: list_all_iff)
    then have "length (numbers s) = length_series s" by (rule length_numbers)
    with s rows show "length v = n" by (simp add: lag_columns_length)
  qed
  with ne have "rows_of (map numbers (lag_columns X))
      = map (\<lambda>i. map (\<lambda>s. s ! i) (map numbers (lag_columns X))) [0..<n]"
    by (rule rows_of_nth)
  then show ?thesis by (simp add: lag_row_def comp_def)
qed

lemma average_rides_last_4_weeks_present:
  assumes "set last_4_weeks_columns \<subseteq> set (columns X)"
  shows "average_rides_last_4_weeks lib X =
           (case mean_axis1 lib (lag_columns X) of
              Inl e \<Rightarrow> Inl e
            | Inr m \<Rightarrow> Inr (setitem X ''average_rides_last_4_weeks'' m))"
proof -
  from assms have "check_columns last_4_weeks_columns X = None"
    by (simp add: check_columns_None_iff)
  moreover from assms have "getitems X last_4_weeks_columns
      = Inr (concat (map (labelled X) last_4_weeks_columns))"
    by (rule getitems_present)
  ultimately show ?thesis
    by (simp add: average_rides_last_4_weeks_def map_snd_selected lag_columns_def)
qed

lemma average_rides_last_4_weeks_missing:
  assumes "\<not> set last_4_weeks_columns \<subseteq> set (columns X)"
  shows "\<exists>c\<in>set last_4_weeks_columns. c \<notin> set (columns X)
           \<and> average_rides_last_4_weeks lib X
               = Inl (ValueError (''Missing required column: '' @ c))"
proof -
  from assms obtain e where e: "check_columns last_4_weeks_columns X = Some e"
    by (cases "check_columns last_4_weeks_columns X") (auto simp: check_columns_None_iff)
  then obtain c where c: "c \<in> set last_4_weeks_columns" "c \<notin> set (columns X)"
    "e = ValueError (''Missing required column: '' @ c)"
    using check_columns_Some by blast
  from e c(3) have "average_rides_last_4_weeks lib X
      = Inl (ValueError (''Missing required column: '' @ c))"
    by (simp add: average_rides_last_4_weeks_def)
  with c(1,2) show ?thesis by blast
qed

lemma average_rides_last_4_weeks_numeric:
  assumes present: "set last_4_weeks_columns \<subseteq> set (columns X)"
    and numeric: "list_all is_Numeric (lag_columns X)"
    and rows: "nrows_is X n"
  shows "average_rides_last_4_weeks lib X
           = Inr (setitem X ''average_rides_last_4_weeks''
                    (Numeric (map (\<lambda>i. nanmean lib (lag_row X i)) [0..<n])))"
proof -
  have "mean_axis1 lib (lag_columns X)
      = Inr (Numeric (map (nanmean lib) (rows_of (map numbers (lag_columns X)))))"
    using numeric by (rule mean_axis1_numeric)
  also have "rows_of (map numbers (lag_columns X)) = map (lag_row X) [0..<n]"
    using present numeric rows by (rule lag_rows)
  finally have "mean_axis1 lib (lag_columns X)
      = Inr (Numeric (map (\<lambda>i. nanmean lib (lag_row X i)) [0..<n]))"
    by (simp add: comp_def)
  with present show ?thesis by (simp add: average_rides_last_4_weeks_present)
qed

lemma lag_row_unique:
  assumes "labelled X ''rides_t-168'' = [(''rides_t-168'', Numeric s1)]"
    and "labelled X ''rides_t-336'' = [(''rides_t-336'', Numeric s2)]"
    and "labelled X ''rides_t-504'' = [(''rides_t-504'', Numeric s3)]"
    and "labelled X ''rides_t-672'' = [(''rides_t-672'', Numeric s4)]"
  shows "lag_row X i = [s1 ! i, s2 ! i, s3 ! i, s4 ! i]"
  using assms by (simp add: lag_row_def lag_columns_def last_4_weeks_columns_eq columns_named_def)

text \<open>
  Claim C4, as amended. For a DataFrame \<open>X\<close> of \<open>n\<close> rows that has the four lag
  labels, all columns under them numeric, \<^verbatim>\<open>average_rides_last_4_weeks\<close> returns
  \<open>X\<close> with the column \<^verbatim>\<open>average_rides_last_4_weeks\<close> set and everything else as
  it was. The column is appended as the one new, last column when \<open>X\<close> had no column
  of that label; when it had, every column of that label is overwritten where it
  stands and no column is added. Its value in row \<open>i\<close> is the library's mean of the
  lag values of that row, taken over every column under one of the four labels (four
  columns when no label is repeated): \<^verbatim>\<open>NaN\<close> when they are all missing; otherwise
  the missing ones are left out, and for whole numbers whose magnitudes add up to at
  most \<open>2 ^ 53\<close> the value is the mean of the others rounded to the nearest 64-bit
  float, which for four such numbers is their arithmetic mean exactly.
\<close>

theorem average_rides_last_4_weeks_column:
  assumes present:
      "set [''rides_t-168'', ''rides_t-336'', ''rides_t-504'', ''rides_t-672'']
         \<subseteq> set (columns X)"
    and numeric: "list_all is_Numeric (lag_columns X)"
    and rows: "nrows_is X n"
  shows "\<exists>m. average_rides_last_4_weeks lib X
               = Inr (setitem X ''average_rides_last_4_weeks'' (Numeric m))
           \<and> length m = n
           \<and> (\<forall>i<n. m ! i = nanmean lib (lag_row X i))
           \<and> (\<forall>i<n. list_all (\<lambda>c. c = NaN) (lag_row X i) \<longrightarrow> m ! i = NaN)
           \<and> (\<forall>i<n. \<forall>vs. filter (\<lambda>c. c \<noteq> NaN) (lag_row X i) = vs \<and> vs \<noteq> [] \<and> exact_sum vs
                  \<longrightarrow> m ! i = binary64 (sum_list (map the_value vs) / of_nat (length vs)))
           \<and> (\<forall>i<n. \<forall>a b c d.
                  lag_row X i = [Num (of_int a), Num (of_int b), Num (of_int c), Num (of_int d)]
                  \<and> \<bar>a\<bar> + \<bar>b\<bar> + \<bar>c\<bar> + \<bar>d\<bar> \<le> 2 ^ 53
                  \<longrightarrow> m ! i = Num (of_int (a + b + c + d) / 4))
           \<and> (\<forall>s1 s2 s3 s4.
                  labelled X ''rides_t-168'' = [(''rides_t-168'', Numeric s1)]
                  \<and> labelled X ''rides_t-336'' = [(''rides_t-336'', Numeric s2)]
                  \<and> labelled X ''rides_t-504'' = [(''rides_t-504'', Numeric s3)]
                  \<and> labelled X ''rides_t-672'' = [(''rides_t-672'', Numeric s4)]
                  \<longrightarrow> (\<forall>i<n. lag_row X i = [s1 ! i, s2 ! i, s3 ! i, s4 ! i]))
           \<and> (''average_rides_last_4_weeks'' \<notin> set (columns X)
                \<longrightarrow> setitem X ''average_rides_last_4_weeks'' (Numeric m)
                      = X @ [(''average_rides_last_4_weeks'', Numeric m)])
           \<and> (''average_rides_last_4_weeks'' \<in> set (columns X)
                \<longrightarrow> length (setitem X ''average_rides_last_4_weeks'' (Numeric m)) = length X
                  \<and> (\<forall>j<length X. setitem X ''average_rides_last_4_weeks'' (Numeric m) ! j
                        = (if fst (X ! j) = ''average_rides_last_4_weeks''
                           then (''average_rides_last_4_weeks'', Numeric m) else X ! j)))"
proof -
  let ?m = "map (\<lambda>i. nanmean lib (lag_row X i)) [0..<n]"
  let ?Y = "setitem X ''average_rides_last_4_weeks'' (Numeric ?m)"
  from present have p: "set last_4_weeks_columns \<subseteq> set (columns X)"
    by (simp add: last_4_weeks_columns_eq)
  have res: "average_rides_last_4_weeks lib X = Inr ?Y"
    using p numeric rows by (rule average_rides_last_4_weeks_numeric)
  have len: "length ?m = n" by simp
  have nth: "\<forall>i<n. ?m ! i = nanmean lib (lag_row X i)" by simp
  have missing: "\<forall>i<n. list_all (\<lambda>c. c = NaN) (lag_row X i) \<longrightarrow> ?m ! i = NaN"
    by (simp add: nanmean_all_missing)
  have rounded: "\<forall>i<n. \<forall>vs. filter (\<lambda>c. c \<noteq> NaN) (lag_row X i) = vs \<and> vs \<noteq> [] \<and> exact_sum vs
                  \<longrightarrow> ?m ! i = binary64 (sum_list (map the_value vs) / of_nat (length vs))"
    by (simp add: nanmean_exact)
  have four: "\<forall>i<n. \<forall>a b c d.
                  lag_row X i = [Num (of_int a), Num (of_int b), Num (of_int c), Num (of_int d)]
                  \<and> \<bar>a\<bar> + \<bar>b\<bar> + \<bar>c\<bar> + \<bar>d\<bar> \<le> 2 ^ 53
                  \<longrightarrow> ?m ! i = Num (of_int (a + b + c + d) / 4)"
    by (simp add: nanmean_four_whole)
  have unique: "\<forall>s1 s2 s3 s4.
                  labelled X ''rides_t-168'' = [(''rides_t-168'', Numeric s1)]
                  \<and> labelled X ''rides_t-336'' = [(''rides_t-336'', Numeric s2)]
                  \<and> labelled X ''rides_t-504'' = [(''rides_t-504'', Numeric s3)]
                  \<and> labelled X ''rides_t-672'' = [(''rides_t-672'', Numeric s4)]
                  \<longrightarrow> (\<forall>i<n. lag_row X i = [s1 ! i, s2 ! i, s3 ! i, s4 ! i])"
    by (simp add: lag_row_unique)
  have new: "''average_rides_last_4_weeks'' \<notin> set (columns X)
                \<longrightarrow> ?Y = X @ [(''average_rides_last_4_weeks'', Numeric ?m)]"
    by (simp add: setitem_absent)
  have old: "''average_rides_last_4_weeks'' \<in> set (columns X)
                \<longrightarrow> length ?Y = length X
                  \<and> (\<forall>j<length X. ?Y ! j
                        = (if fst (X ! j) = ''average_rides_last_4_weeks''
                           then (''average_rides_last_4_weeks'', Numeric ?m) else X ! j))"
    by (simp add: length_setitem nth_setitem_present)
  show ?thesis
    apply (rule exI [of _ ?m])
    apply (intro conjI)
            apply (rule res)
           apply (rule len)
          apply (rule nth)
         apply (rule missing)
        apply (rule rounded)
       apply (rule four)
      apply (rule unique)
     apply (rule new)
    apply (rule old)
    done
qed

lemma floor_log2_unit: "1 \<le> q \<Longrightarrow> q < 2 \<Longrightarrow> floor_log2 q = 0"
  by (simp add: floor_log2_def numeral_eq_Suc)

lemma binary64_four_thirds: "binary64 (4 / 3) = Num (6004799503160661 / 4503599627370496)"
proof -
  have e: "floor_log2 \<bar>4 / 3\<bar> = 0" by (rule floor_log2_unit) simp_all
  have f: "\<lfloor>(18014398509481984::rat) / 3\<rfloor> = 6004799503160661"
    by (rule floor_unique) simp_all
  have "round_half_even (18014398509481984 / 3) = 6004799503160661"
    by (simp add: round_half_even_def Let_def f)
  with e show ?thesis
    by (simp add: binary64_def Let_def)
qed

lemma nanmean_example_rows:
  "nanmean lib [Num 1, NaN, Num 1, Num 2] = Num (6004799503160661 / 4503599627370496)"
  "nanmean lib [Num 2, Num 0, Num 4, Num 1] = Num (7 / 4)"
  "nanmean lib [Num 1, NaN, NaN, Num 1, Num 2] = Num (6004799503160661 / 4503599627370496)"
  "nanmean lib [Num 2, Num 13, Num 0, Num 4, Num 1] = Num 4"
proof -
  show "nanmean lib [Num 1, NaN, Num 1, Num 2] = Num (6004799503160661 / 4503599627370496)"
    by (simp add: nanmean_def exact_sum_def binary64_four_thirds)
  show "nanmean lib [Num 1, NaN, NaN, Num 1, Num 2] = Num (6004799503160661 / 4503599627370496)"
    by (simp add: nanmean_def exact_sum_def binary64_four_thirds)
  show "nanmean lib [Num 2, Num 0, Num 4, Num 1] = Num (7 / 4)"
    using nanmean_four_whole [of 2 0 4 1 lib] by simp
  have "binary64 (of_int 4) = Num (of_int 4)" by (rule binary64_int) simp
  then show "nanmean lib [Num 2, Num 13, Num 0, Num 4, Num 1] = Num 4"
    by (simp add: nanmean_def exact_sum_def)
qed

text \<open>
  The claim as stated fails. On a frame that already has the column and has a missing
  lag value, no column is added, and the value written is the mean of the three lag
  values present, rounded to a 64-bit float. On a frame whose lag column
  \<^verbatim>\<open>rides_t-168\<close> holds a datetime, nothing is returned.
\<close>

theorem average_rides_last_4_weeks_column_counterexample:
  "average_rides_last_4_weeks example_library
     [(''rides_t-168'', Numeric [Num 1, Num 2]),
      (''average_rides_last_4_weeks'', Numeric [Num 0, Num 0]),
      (''rides_t-336'', Numeric [NaN, Num 0]),
      (''rides_t-504'', Numeric [Num 1, Num 4]),
      (''rides_t-672'', Numeric [Num 2, Num 1])]
   = Inr [(''rides_t-168'', Numeric [Num 1, Num 2]),
          (''average_rides_last_4_weeks'',
             Numeric [Num (6004799503160661 / 4503599627370496), Num (7 / 4)]),
          (''rides_t-336'', Numeric [NaN, Num 0]),
          (''rides_t-504'', Numeric [Num 1, Num 4]),
          (''rides_t-672'', Numeric [Num 2, Num 1])]
   \<and> average_rides_last_4_weeks example_library
       [(''rides_t-168'', Datetimes [Some (mk_datetime 2023 9 1 13)]),
        (''rides_t-336'', Numeric [Num 1]),
        (''rides_t-504'', Numeric [Num 1]),
        (''rides_t-672'', Numeric [Num 2])]
     = Inl TypeError"
  by (simp add: average_rides_last_4_weeks_def last_4_weeks_columns_eq columns_def getitems_def
      labelled_def mean_axis1_def setitem_def nanmean_example_rows)

theorem average_rides_last_4_weeks_column_witness:
  "average_rides_last_4_weeks example_library example_frame_repeated
     = Inr [(''rides_t-168'', Numeric [Num 1, Num 2]),
            (''average_rides_last_4_weeks'',
               Numeric [Num (6004799503160661 / 4503599627370496), Num 4]),
            (''rides_t-336'', Numeric [NaN, Num 0]),
            (''rides_t-504'', Numeric [Num 1, Num 4]),
            (''rides_t-672'', Numeric [Num 2, Num 1]),
            (''rides_t-168'', Numeric [NaN, Num 13])]"
proof -
  have present: "set [''rides_t-168'', ''rides_t-336'', ''rides_t-504'', ''rides_t-672'']
      \<subseteq> set (columns example_frame_repeated)"
    by (simp add: example_frame_repeated_def example_frame_again_def columns_def)
  have lags: "lag_columns example_frame_repeated
      = [Numeric [Num 1, Num 2], Numeric [NaN, Num 13], Numeric [NaN, Num 0],
         Numeric [Num 1, Num 4], Numeric [Num 2, Num 1]]"
    by (simp add: lag_columns_def last_4_weeks_columns_eq columns_named_def labelled_def
        example_frame_repeated_def example_frame_again_def)
  have numeric: "list_all is_Numeric (lag_columns example_frame_repeated)"
    by (simp add: lags)
  have rows: "nrows_is example_frame_repeated 2"
    by (simp add: example_frame_repeated_def example_frame_again_def nrows_is_def)
  have "\<exists>m. average_rides_last_4_weeks example_library example_frame_repeated
               = Inr (setitem example_frame_repeated ''average_rides_last_4_weeks'' (Numeric m))
           \<and> length m = 2
           \<and> (\<forall>i<2. m ! i = nanmean example_library (lag_row example_frame_repeated i))"
    using average_rides_last_4_weeks_column [OF present numeric rows, of example_library]
    apply (elim exE conjE)
    apply (rule exI)
    apply (intro conjI)
      apply assumption+
    done
  then obtain m where m1: "average_rides_last_4_weeks example_library example_frame_repeated
               = Inr (setitem example_frame_repeated ''average_rides_last_4_weeks'' (Numeric m))"
    and m2: "length m = 2"
    and m3: "\<forall>i<2. m ! i = nanmean example_library (lag_row example_frame_repeated i)"
    by (elim exE conjE)
  from m3 have "m ! 0 = Num (6004799503160661 / 4503599627370496)"
    by (simp add: lag_row_def lags nanmean_example_rows)
  moreover from m3 have "m ! 1 = Num 4"
    by (simp add: lag_row_def lags nanmean_example_rows)
  moreover from m2 have "m = [m ! 0, m ! 1]"
    by (cases m; cases "tl m") auto
  ultimately have "m = [Num (6004799503160661 / 4503599627370496), Num 4]" by simp
  with m1 show ?thesis
    by (simp add: setitem_def columns_def example_frame_repeated_def example_frame_again_def)
qed

lemma average_rides_last_4_weeks_not_numeric:
  assumes present: "set last_4_weeks_columns \<subseteq> set (columns X)"
    and "\<not> list_all is_Numeric (lag_columns X)"
  shows "average_rides_last_4_weeks lib X =
           (if list_ex is_Numeric (lag_columns X) \<and> list_ex has_timestamp (lag_columns X)
            then Inl TypeError
            else case other_mean lib (lag_columns X) of
                   None \<Rightarrow> Inl TypeError
                 | Some m \<Rightarrow> Inr (setitem X ''average_rides_last_4_weeks'' m))"
  using assms
  by (simp add: average_rides_last_4_weeks_present mean_axis1_def split: option.splits)

lemma average_rides_last_4_weeks_outcome:
  "(\<exists>Y. average_rides_last_4_weeks lib X = Inr Y)
   \<or> (\<exists>c\<in>set last_4_weeks_columns. c \<notin> set (columns X)
        \<and> average_rides_last_4_weeks lib X
            = Inl (ValueError (''Missing required column: '' @ c)))
   \<or> (set last_4_weeks_columns \<subseteq> set (columns X)
        \<and> \<not> list_all is_Numeric (lag_columns X)
        \<and> average_rides_last_4_weeks lib X = Inl TypeError)"
proof (cases "set last_4_weeks_columns \<subseteq> set (columns X)")
  case False
  then show ?thesis using average_rides_last_4_weeks_missing [of X lib] by blast
next
  case True
  show ?thesis
  proof (cases "average_rides_last_4_weeks lib X")
    case (Inr Y)
    then show ?thesis by simp
  next
    case (Inl e)
    with True have "mean_axis1 lib (lag_columns X) = Inl e"
      by (simp add: average_rides_last_4_weeks_present split: sum.splits)
    then have "e = TypeError \<and> \<not> list_all is_Numeric (lag_columns X)"
      by (rule mean_axis1_Inl)
    with True Inl show ?thesis by simp
  qed
qed

text \<open>
  Claim C2, as amended. \<^verbatim>\<open>average_rides_last_4_weeks\<close> raises \<^verbatim>\<open>ValueError\<close> if and
  only if at least one of the four lag labels \<^verbatim>\<open>rides_t-168\<close>, \<^verbatim>\<open>rides_t-336\<close>,
  \<^verbatim>\<open>rides_t-504\<close>, \<^verbatim>\<open>rides_t-672\<close> is absent from the columns of the frame. When
  all four are present it returns normally or raises \<^verbatim>\<open>TypeError\<close>: it returns when
  the columns under the four labels are all numeric, it raises \<^verbatim>\<open>TypeError\<close> when
  one of them is numeric and another holds a datetime, and in the remaining case, with
  no numeric column or no datetime among them, it does what the library's mean of
  such columns does.
\<close>

theorem average_rides_last_4_weeks_raises_iff_missing:
  "((\<exists>msg. average_rides_last_4_weeks lib X = Inl (ValueError msg))
      \<longleftrightarrow> (\<exists>c\<in>set [''rides_t-168'', ''rides_t-336'', ''rides_t-504'', ''rides_t-672''].
             c \<notin> set (columns X)))
   \<and> (set [''rides_t-168'', ''rides_t-336'', ''rides_t-504'', ''rides_t-672''] \<subseteq> set (columns X)
      \<longrightarrow> ((\<exists>Y. average_rides_last_4_weeks lib X = Inr Y)
            \<or> average_rides_last_4_weeks lib X = Inl TypeError)
        \<and> (list_all is_Numeric (lag_columns X)
            \<longrightarrow> (\<exists>Y. average_rides_last_4_weeks lib X = Inr Y))
        \<and> (list_ex is_Numeric (lag_columns X) \<and> list_ex has_timestamp (lag_columns X)
            \<longrightarrow> average_rides_last_4_weeks lib X = Inl TypeError)
        \<and> (\<not> list_all is_Numeric (lag_columns X)
            \<and> \<not> (list_ex is_Numeric (lag_columns X) \<and> list_ex has_timestamp (lag_columns X))
            \<longrightarrow> average_rides_last_4_weeks lib X
                  = (case other_mean lib (lag_columns X) of
                       None \<Rightarrow> Inl TypeError
                     | Some m \<Rightarrow> Inr (setitem X ''average_rides_last_4_weeks'' m))))"
proof (cases "set last_4_weeks_columns \<subseteq> set (columns X)")
  case True
  note present = True
  have res: "average_rides_last_4_weeks lib X =
           (case mean_axis1 lib (lag_columns X) of
              Inl e \<Rightarrow> Inl e
            | Inr m \<Rightarrow> Inr (setitem X ''average_rides_last_4_weeks'' m))"
    using True by (rule average_rides_last_4_weeks_present)
  have novalue: "\<not> (\<exists>msg. average_rides_last_4_weeks lib X = Inl (ValueError msg))"
    using res by (auto split: sum.splits dest: mean_axis1_Inl)
  have either: "(\<exists>Y. average_rides_last_4_weeks lib X = Inr Y)
            \<or> average_rides_last_4_weeks lib X = Inl TypeError"
    using res by (auto split: sum.splits dest: mean_axis1_Inl)
  have num: "list_all is_Numeric (lag_columns X)
            \<longrightarrow> (\<exists>Y. average_rides_last_4_weeks lib X = Inr Y)"
    using res by (simp add: mean_axis1_numeric)
  have mixed: "list_ex is_Numeric (lag_columns X) \<and> list_ex has_timestamp (lag_columns X)
            \<longrightarrow> average_rides_last_4_weeks lib X = Inl TypeError"
    using res by (simp add: mean_axis1_mixed)
  have other: "\<not> list_all is_Numeric (lag_columns X)
            \<and> \<not> (list_ex is_Numeric (lag_columns X) \<and> list_ex has_timestamp (lag_columns X))
            \<longrightarrow> average_rides_last_4_weeks lib X
                  = (case other_mean lib (lag_columns X) of
                       None \<Rightarrow> Inl TypeError
                     | Some m \<Rightarrow> Inr (setitem X ''average_rides_last_4_weeks'' m))"
    using average_rides_last_4_weeks_not_numeric [OF present, of lib] by auto
  from present have all: "\<not> (\<exists>c\<in>set [''rides_t-168'', ''rides_t-336'', ''rides_t-504'', ''rides_t-672''].
             c \<notin> set (columns X))"
    by (auto simp: last_4_weeks_columns_eq)
  from novalue all either num mixed other show ?thesis by blast
next
  case False
  then have "\<exists>msg. average_rides_last_4_weeks lib X = Inl (ValueError msg)"
    using average_rides_last_4_weeks_missing [of X lib] by blast
  with False show ?thesis by (auto simp: last_4_weeks_columns_eq)
qed

text \<open>
  The claim as stated fails: all four lag columns are present, one of them holds a
  datetime, and the call raises \<^verbatim>\<open>TypeError\<close>.
\<close>

theorem average_rides_last_4_weeks_raises_iff_missing_counterexample:
  "columns
     [(''rides_t-168'', Datetimes [Some (mk_datetime 2023 9 1 13)]),
      (''rides_t-336'', Numeric [Num 2]),
      (''rides_t-504'', Numeric [Num 3]),
      (''rides_t-672'', Numeric [Num 5])]
     = [''rides_t-168'', ''rides_t-336'', ''rides_t-504'', ''rides_t-672'']
   \<and> average_rides_last_4_weeks example_library
       [(''rides_t-168'', Datetimes [Some (mk_datetime 2023 9 1 13)]),
        (''rides_t-336'', Numeric [Num 2]),
        (''rides_t-504'', Numeric [Num 3]),
        (''rides_t-672'', Numeric [Num 5])]
     = Inl TypeError"
  by (simp add: average_rides_last_4_weeks_def last_4_weeks_columns_eq columns_def getitems_def
      labelled_def mean_axis1_def)

theorem average_rides_last_4_weeks_raises_iff_missing_witness:
  "(\<exists>Y. average_rides_last_4_weeks example_library example_frame = Inr Y)
   \<and> (\<exists>msg. average_rides_last_4_weeks example_library [] = Inl (ValueError msg))
   \<and> average_rides_last_4_weeks example_library
       [(''rides_t-168'', Numeric [Num 1]),
        (''rides_t-336'', Numeric [Num 2]),
        (''rides_t-504'', Datetimes [Some (mk_datetime 2023 9 1 13)]),
        (''rides_t-672'', Numeric [Num 5])]
     = Inl TypeError"
proof -
  let ?Z = "[(''rides_t-168'', Numeric [Num 1]),
        (''rides_t-336'', Numeric [Num 2]),
        (''rides_t-504'', Datetimes [Some (mk_datetime 2023 9 1 13)]),
        (''rides_t-672'', Numeric [Num 5])]"
  have a: "\<exists>Y. average_rides_last_4_weeks example_library example_frame = Inr Y"
    using average_rides_last_4_weeks_raises_iff_missing [of example_library example_frame]
    by (simp add: example_frame_def columns_def lag_columns_def last_4_weeks_columns_eq
        columns_named_def labelled_def)
  have b: "\<exists>msg. average_rides_last_4_weeks example_library [] = Inl (ValueError msg)"
    using average_rides_last_4_weeks_raises_iff_missing [of example_library "[]"]
    by (auto simp: columns_def)
  have c: "average_rides_last_4_weeks example_library ?Z = Inl TypeError"
    using average_rides_last_4_weeks_raises_iff_missing [of example_library ?Z]
    by (simp add: columns_def lag_columns_def last_4_weeks_columns_eq
        columns_named_def labelled_def)
  from a b c show ?thesis by (intro conjI)
qed

section \<open>Properties of the hour and day-of-week extractor\<close>



lemma dt_dayofweek_monday: "dt_dayofweek (mk_datetime 2023 9 4 0) = 0"
  by (simp add: dt_dayofweek_def mk_datetime_def toordinal_def ymd2ord_def days_before_year_def
      days_before_month_def DAYS_BEFORE_MONTH_def is_leap_def us_per_day_def us_per_hour_def)

lemma dt_dayofweek_next_day: "dt_dayofweek (t + us_per_day) = (dt_dayofweek t + 1) mod 7"
proof -
  have "(t + us_per_day) div us_per_day = t div us_per_day + 1"
    by (simp add: us_per_day_def us_per_hour_def)
  then show ?thesis
    unfolding dt_dayofweek_def toordinal_def by presburger
qed


lemma transform_datetime:
  assumes ph: "getitem X ''pickup_hour'' = Inr (Column (Datetimes ts))"
  shows "transform self X =
           drop_columns
             (setitem (setitem X ''hour'' (Numeric (map (field dt_hour) ts)))
                ''day_of_week'' (Numeric (map (field dt_dayofweek) ts)))
             [''pickup_hour'', ''pickup_location_id'']"
  using ph
  by (simp add: transform_def dt_hour_series_def dt_dayofweek_series_def getitem_setitem_other)

lemma transform_result:
  assumes ph: "getitem X ''pickup_hour'' = Inr (Column (Datetimes ts))"
    and loc: "''pickup_location_id'' \<in> set (columns X)"
  shows "transform self X =
           Inr (filter (\<lambda>(c, s). c \<notin> set [''pickup_hour'', ''pickup_location_id''])
                  (setitem (setitem X ''hour'' (Numeric (map (field dt_hour) ts)))
                     ''day_of_week'' (Numeric (map (field dt_dayofweek) ts))))"
proof -
  let ?X2 = "setitem (setitem X ''hour'' (Numeric (map (field dt_hour) ts)))
               ''day_of_week'' (Numeric (map (field dt_dayofweek) ts))"
  from ph have "''pickup_hour'' \<in> set (columns X)"
    by (rule getitem_Column_in_columns)
  with loc have "set [''pickup_hour'', ''pickup_location_id''] \<subseteq> set (columns ?X2)"
    by (simp add: columns_setitem)
  then have "drop_columns ?X2 [''pickup_hour'', ''pickup_location_id'']
      = Inr (filter (\<lambda>(c, s). c \<notin> set [''pickup_hour'', ''pickup_location_id'']) ?X2)"
    by (rule drop_columns_present)
  with ph show ?thesis by (simp add: transform_datetime)
qed

lemma transform_no_location:
  assumes ph: "getitem X ''pickup_hour'' = Inr (Column (Datetimes ts))"
    and loc: "''pickup_location_id'' \<notin> set (columns X)"
  shows "transform self X = Inl KeyError"
proof -
  let ?X2 = "setitem (setitem X ''hour'' (Numeric (map (field dt_hour) ts)))
               ''day_of_week'' (Numeric (map (field dt_dayofweek) ts))"
  from loc have "''pickup_location_id'' \<notin> set (columns ?X2)"
    by (simp add: columns_setitem)
  then have "drop_columns ?X2 [''pickup_hour'', ''pickup_location_id''] = Inl KeyError"
    by (simp add: drop_columns_Inl_iff)
  with ph show ?thesis by (simp add: transform_datetime)
qed

lemma transform_no_accessor:
  assumes "getitem X ''pickup_hour'' = Inr sel"
    and "\<forall>ts. sel \<noteq> Column (Datetimes ts)"
  shows "transform self X = Inl AttributeError"
proof -
  from assms(2) have "dt_accessor sel = Inl AttributeError"
    by (cases sel rule: dt_accessor.cases) simp_all
  with assms(1) show ?thesis
    by (simp add: transform_def dt_hour_series_def)
qed

lemma transform_no_pickup_hour:
  assumes "''pickup_hour'' \<notin> set (columns X)"
  shows "transform self X = Inl KeyError"
proof -
  from assms have "getitem X ''pickup_hour'' = Inl KeyError"
    by (simp add: getitem_Inl_iff)
  then show ?thesis by (simp add: transform_def)
qed


lemmas calendar_defs =
  mk_datetime_def ymd2ord_def days_before_year_def days_before_month_def DAYS_BEFORE_MONTH_def
  DAYS_IN_MONTH_def is_leap_def us_per_day_def us_per_hour_def timedelta_weeks_def
  toordinal_def ord2ymd_def dt_year_def dt_month_def

lemma example_fields:
  "field dt_hour (Some (mk_datetime 2023 9 1 13)) = Num 13"
  "field dt_dayofweek (Some (mk_datetime 2023 9 1 13)) = Num 4"
  "field dt_hour (Some (mk_datetime 2023 9 3 0)) = Num 0"
  "field dt_dayofweek (Some (mk_datetime 2023 9 3 0)) = Num 6"
  "field f None = NaN"
  by (simp_all add: field_def dt_hour_def dt_dayofweek_def calendar_defs)



section \<open>Objects: what a call reads, writes and returns\<close>

lemma deref_Inr_iff: "deref h r = Inr fr \<longleftrightarrow> r < length h \<and> h ! r = fr"
  by (auto simp: deref_def)

lemma deref_Inl_iff: "deref h r = Inl e \<longleftrightarrow> \<not> r < length h \<and> e = ReferenceError"
  by (auto simp: deref_def)

lemma copy_obj_valid:
  "deref h X = Inr fr \<Longrightarrow> copy_obj X h = (Inr (length h), h @ [fr])"
  by (simp add: copy_obj_def alloc_def)

lemma copy_obj_invalid: "deref h X = Inl e \<Longrightarrow> copy_obj X h = (Inl e, h)"
  by (simp add: copy_obj_def)

lemma getitem_obj_new: "getitem_obj (length h) col (h @ [fr]) = getitem fr col"
  by (simp add: getitem_obj_def deref_def)

lemma setitem_obj_new:
  "setitem_obj (length h) col s (h @ [fr]) = (Inr (), h @ [setitem fr col s])"
  by (simp add: setitem_obj_def deref_def)

lemma drop_obj_new:
  "drop_obj (length h) cols (h @ [fr]) =
     (case drop_columns fr cols of
        Inl e \<Rightarrow> (Inl e, h @ [fr])
      | Inr fr' \<Rightarrow> (Inr (Suc (length h)), h @ [fr, fr']))"
  by (simp add: drop_obj_def deref_def alloc_def split: sum.splits)

text \<open>
  The object-level method in terms of the contents: the copy is the object
  \<open>length h\<close>, the frame returned is the object after it, and the store given is
  a prefix of the store left, whatever happens.
\<close>

lemma transform_obj_valid:
  assumes "deref h X = Inr fr"
  shows "\<exists>fr'. transform_obj self X h =
           (case transform self fr of
              Inl e \<Rightarrow> (Inl e, h @ [fr'])
            | Inr Y \<Rightarrow> (Inr (Suc (length h)), h @ [fr', Y]))"
  using assms
  by (auto simp: transform_obj_def transform_def copy_obj_valid getitem_obj_new setitem_obj_new
      drop_obj_new Let_def split: sum.splits)

lemma transform_obj_invalid:
  "deref h X = Inl e \<Longrightarrow> transform_obj self X h = (Inl e, h)"
  by (simp add: transform_obj_def copy_obj_invalid)

lemma average_rides_last_4_weeks_obj_valid:
  assumes "deref h X = Inr fr"
  shows "average_rides_last_4_weeks_obj lib X h =
           (case average_rides_last_4_weeks lib fr of
              Inl e \<Rightarrow> (Inl e, h)
            | Inr fr' \<Rightarrow> (Inr X, h[X := fr']))"
  using assms
  by (simp add: average_rides_last_4_weeks_obj_def average_rides_last_4_weeks_def setitem_obj_def
      split: option.splits sum.splits)

lemma average_rides_last_4_weeks_obj_invalid:
  "deref h X = Inl e \<Longrightarrow> average_rides_last_4_weeks_obj lib X h = (Inl e, h)"
  by (simp add: average_rides_last_4_weeks_obj_def)

lemma average_rides_last_4_weeks_has_column:
  "average_rides_last_4_weeks lib X = Inr Y \<Longrightarrow>
   ''average_rides_last_4_weeks'' \<in> set (columns Y)"
  by (auto simp: average_rides_last_4_weeks_def columns_setitem split: option.splits sum.splits)

text \<open>
  Claim C9. \<^verbatim>\<open>average_rides_last_4_weeks\<close> mutates its argument in place: a successful
  call returns the reference it was given, and afterwards that same object has the
  column \<^verbatim>\<open>average_rides_last_4_weeks\<close>, every other object being as before. The
  transformer \<^verbatim>\<open>add_feature_average_rides_last_4_weeks\<close> is built with
  \<^verbatim>\<open>validate=False\<close>, so its \<^verbatim>\<open>transform\<close> does the same, with no copy.
\<close>

theorem average_rides_last_4_weeks_obj_in_place:
  assumes X: "deref h X = Inr fr"
    and ok: "average_rides_last_4_weeks lib fr = Inr fr'"
  shows "average_rides_last_4_weeks_obj lib X h = (Inr X, h[X := fr'])
       \<and> deref (h[X := fr']) X = Inr fr'
       \<and> ''average_rides_last_4_weeks'' \<in> set (columns fr')
       \<and> length (h[X := fr']) = length h
       \<and> (\<forall>r. r \<noteq> X \<longrightarrow> deref (h[X := fr']) r = deref h r)
       \<and> validate (add_feature_average_rides_last_4_weeks lib) = False
       \<and> FunctionTransformer_transform (add_feature_average_rides_last_4_weeks lib) X h
           = (Inr X, h[X := fr'])"
proof -
  have call: "average_rides_last_4_weeks_obj lib X h = (Inr X, h[X := fr'])"
    using X ok by (simp add: average_rides_last_4_weeks_obj_valid)
  from X have "X < length h" by (simp add: deref_Inr_iff)
  then have after: "deref (h[X := fr']) X = Inr fr'"
    by (simp add: deref_def)
  have col: "''average_rides_last_4_weeks'' \<in> set (columns fr')"
    using ok by (rule average_rides_last_4_weeks_has_column)
  have others: "\<forall>r. r \<noteq> X \<longrightarrow> deref (h[X := fr']) r = deref h r"
    by (simp add: deref_def)
  have v: "validate (add_feature_average_rides_last_4_weeks lib) = False"
    by (simp add: add_feature_average_rides_last_4_weeks_def)
  have t: "FunctionTransformer_transform (add_feature_average_rides_last_4_weeks lib) X h
             = (Inr X, h[X := fr'])"
    using call
    by (simp add: FunctionTransformer_transform_def add_feature_average_rides_last_4_weeks_def)
  from call after col others v t show ?thesis by simp
qed

text \<open>
  Claim C10. \<^verbatim>\<open>TemporalFeatureEngineer.transform\<close> never mutates its input: it works
  on a copy, so after any call, failed or not, every object of the caller's store has
  the contents it had, and the frame returned is a new object. \<^verbatim>\<open>fit\<close> returns the
  transformer as it is, whatever the data, so \<^verbatim>\<open>fit\<close> followed by
  \<^verbatim>\<open>transform\<close> gives what \<^verbatim>\<open>transform\<close> alone gives.
\<close>

theorem transform_obj_never_mutates_input:
  "take (length h) (snd (transform_obj self X h)) = h
   \<and> (\<forall>r fr. deref h r = Inr fr \<longrightarrow> deref (snd (transform_obj self X h)) r = Inr fr)
   \<and> (\<forall>Y. fst (transform_obj self X h) = Inr Y \<longrightarrow> length h \<le> Y \<and> Y \<noteq> X)
   \<and> fit self X1 y1 = self
   \<and> fit self X1 y1 = fit self X2 y2
   \<and> transform_obj (fit self X1 y1) X h = transform_obj self X h
   \<and> transform (fit self X1 y1) fr = transform self fr"
proof -
  have pre: "take (length h) (snd (transform_obj self X h)) = h"
  proof (cases "deref h X")
    case (Inl e)
    then show ?thesis by (simp add: transform_obj_invalid)
  next
    case (Inr fr)
    from transform_obj_valid [OF Inr, of self] obtain fr' where
      "transform_obj self X h =
         (case transform self fr of
            Inl e \<Rightarrow> (Inl e, h @ [fr'])
          | Inr Y \<Rightarrow> (Inr (Suc (length h)), h @ [fr', Y]))" ..
    then show ?thesis by (simp split: sum.splits)
  qed
  have keep: "\<forall>r fr. deref h r = Inr fr \<longrightarrow> deref (snd (transform_obj self X h)) r = Inr fr"
  proof (intro allI impI)
    fix r fr
    assume d: "deref h r = Inr fr"
    then have r: "r < length h" and fr: "h ! r = fr" by (simp_all add: deref_Inr_iff)
    let ?h' = "snd (transform_obj self X h)"
    from pre have "length (take (length h) ?h') = length h" by simp
    then have len: "length h \<le> length ?h'" by simp
    from pre r have "?h' ! r = h ! r" by (metis nth_take)
    with r len fr show "deref ?h' r = Inr fr" by (simp add: deref_def)
  qed
  have new: "\<forall>Y. fst (transform_obj self X h) = Inr Y \<longrightarrow> length h \<le> Y \<and> Y \<noteq> X"
  proof (cases "deref h X")
    case (Inl e)
    then show ?thesis by (simp add: transform_obj_invalid)
  next
    case (Inr fr)
    then have "X < length h" by (simp add: deref_Inr_iff)
    moreover from transform_obj_valid [OF Inr, of self] obtain fr' where
      "transform_obj self X h =
         (case transform self fr of
            Inl e \<Rightarrow> (Inl e, h @ [fr'])
          | Inr Y \<Rightarrow> (Inr (Suc (length h)), h @ [fr', Y]))" ..
    ultimately show ?thesis by (auto split: sum.splits)
  qed
  have f: "fit self X1 y1 = self" "fit self X1 y1 = fit self X2 y2"
    by (simp_all add: fit_def)
  from pre keep new f show ?thesis by simp
qed

lemma example_average:
  "average_rides_last_4_weeks lib example_frame
     = Inr (setitem example_frame ''average_rides_last_4_weeks''
              (Numeric [Num (11 / 4), Num (7 / 4)]))"
proof -
  have a: "nanmean lib [Num 1, Num 2, Num 3, Num 5] = Num (11 / 4)"
    using nanmean_four_whole [of 1 2 3 5 lib] by simp
  have b: "nanmean lib [Num 2, Num 0, Num 4, Num 1] = Num (7 / 4)"
    using nanmean_four_whole [of 2 0 4 1 lib] by simp
  show ?thesis
    by (simp add: average_rides_last_4_weeks_def last_4_weeks_columns_eq columns_def getitems_def
        labelled_def mean_axis1_def example_frame_def a b)
qed

theorem average_rides_last_4_weeks_obj_in_place_witness:
  "average_rides_last_4_weeks_obj example_library 0 [example_frame]
     = (Inr 0, [setitem example_frame ''average_rides_last_4_weeks''
                  (Numeric [Num (11 / 4), Num (7 / 4)])])
   \<and> FunctionTransformer_transform (add_feature_average_rides_last_4_weeks example_library) 0
        [example_frame]
     = (Inr 0, [setitem example_frame ''average_rides_last_4_weeks''
                  (Numeric [Num (11 / 4), Num (7 / 4)])])
   \<and> ''average_rides_last_4_weeks''
       \<in> set (columns (setitem example_frame ''average_rides_last_4_weeks''
                          (Numeric [Num (11 / 4), Num (7 / 4)])))"
proof -
  have X: "deref [example_frame] 0 = Inr example_frame"
    by (simp add: deref_def)
  from average_rides_last_4_weeks_obj_in_place [OF X example_average, of example_library]
  show ?thesis by simp
qed

theorem transform_obj_never_mutates_input_witness:
  "deref (snd (transform_obj TemporalFeatureEngineer 0 [example_frame])) 0 = Inr example_frame
   \<and> fst (transform_obj TemporalFeatureEngineer 0 [example_frame]) = Inr 2
   \<and> take 1 (snd (transform_obj TemporalFeatureEngineer 0 [example_frame])) = [example_frame]"
proof -
  have X: "deref [example_frame] 0 = Inr example_frame"
    by (simp add: deref_def)
  have ph: "getitem example_frame ''pickup_hour''
              = Inr (Column (Datetimes [Some (mk_datetime 2023 9 1 13),
                                        Some (mk_datetime 2023 9 3 0)]))"
    by (simp add: example_frame_def getitem_def labelled_def)
  have loc: "''pickup_location_id'' \<in> set (columns example_frame)"
    by (simp add: example_frame_def columns_def)
  from transform_result [OF ph loc, of TemporalFeatureEngineer]
  have "\<exists>Y. transform TemporalFeatureEngineer example_frame = Inr Y" by (rule exI)
  then obtain Y where Y: "transform TemporalFeatureEngineer example_frame = Inr Y" ..
  from transform_obj_valid [OF X, of TemporalFeatureEngineer] obtain fr' where
    "transform_obj TemporalFeatureEngineer 0 [example_frame] =
       (case transform TemporalFeatureEngineer example_frame of
          Inl e \<Rightarrow> (Inl e, [example_frame] @ [fr'])
        | Inr Y \<Rightarrow> (Inr (Suc (length [example_frame])), [example_frame] @ [fr', Y]))" ..
  with Y have ret: "fst (transform_obj TemporalFeatureEngineer 0 [example_frame]) = Inr 2"
    by simp
  note inst = transform_obj_never_mutates_input
    [of "[example_frame]" TemporalFeatureEngineer 0 "0::nat" "0::nat" "0::nat" "0::nat" example_frame]
  from inst have a: "take (length [example_frame])
      (snd (transform_obj TemporalFeatureEngineer 0 [example_frame])) = [example_frame]"
    by (elim conjE)
  from inst have "\<forall>r fr. deref [example_frame] r = Inr fr \<longrightarrow>
      deref (snd (transform_obj TemporalFeatureEngineer 0 [example_frame])) r = Inr fr"
    by (elim conjE)
  with X have b: "deref (snd (transform_obj TemporalFeatureEngineer 0 [example_frame])) 0
      = Inr example_frame"
    by blast
  from a b ret show ?thesis by simp
qed

section \<open>Properties of the batch fetch\<close>

lemma sorted_sort_values:
  "sorted (map (\<lambda>r. (pickup_location_id r, pickup_datetime r)) (sort_values rides))"
  by (simp add: sort_values_def)

lemma add_timedelta_Inr_iff:
  "add_timedelta delta rides = Inr rs \<longleftrightarrow>
     (\<forall>r\<in>set rides. pickup_datetime r + delta \<le> Timestamp_max)
     \<and> rs = map (shift_pickup delta) rides"
proof (cases "\<forall>r\<in>set rides. pickup_datetime r + delta \<le> Timestamp_max")
  case True
  then have "\<not> (\<exists>r\<in>set rides. Timestamp_max < pickup_datetime r + delta)"
    by (simp add: not_less)
  with True show ?thesis by (auto simp: add_timedelta_def list_ex_iff)
next
  case False
  then have "\<exists>r\<in>set rides. Timestamp_max < pickup_datetime r + delta"
    by (simp add: not_le)
  with False show ?thesis by (simp add: add_timedelta_def list_ex_iff)
qed

lemma add_timedelta_Inl_iff:
  "add_timedelta delta rides = Inl e \<longleftrightarrow>
     (\<exists>r\<in>set rides. Timestamp_max < pickup_datetime r + delta) \<and> e = OverflowError"
  by (auto simp: add_timedelta_def list_ex_iff)

lemma datetime_ge_Inl_iff:
  "datetime_ge a b = Inl e \<longleftrightarrow> (utcoffset a = None) \<noteq> (utcoffset b = None) \<and> e = TypeError"
  by (auto simp: datetime_ge_def split: option.splits)

lemma datetime_ge_naive: "datetime_ge (naive a) (naive b) = Inr (b \<le> a)"
  by (simp add: datetime_ge_def naive_def)

lemma datetime_sub_Inr_iff:
  "datetime_sub d delta = Inr d' \<longleftrightarrow> delta \<le> wall d \<and> d' = d\<lparr>wall := wall d - delta\<rparr>"
  by (auto simp: datetime_sub_def)

lemma datetime_sub_Inl_iff:
  "datetime_sub d delta = Inl e \<longleftrightarrow> wall d < delta \<and> e = OverflowError"
  by (auto simp: datetime_sub_def)

lemma fetch_batch_raw_data_Inr_sort_values:
  "fetch_batch_raw_data fromisoformat load from_date to_date = Inr rides \<Longrightarrow>
   \<exists>rs. rides = sort_values rs"
  by (auto simp: fetch_batch_raw_data_def Let_def split: sum.splits if_splits bool.splits)

lemma sorted_pairs_consecutive:
  fixes rides :: "'a ride_scheme list"
  assumes "sorted (map (\<lambda>r. (pickup_location_id r, pickup_datetime r)) rides)"
    and "Suc i < length rides"
  shows "pickup_location_id (rides ! i) < pickup_location_id (rides ! Suc i)
       \<or> (pickup_location_id (rides ! i) = pickup_location_id (rides ! Suc i)
          \<and> pickup_datetime (rides ! i) \<le> pickup_datetime (rides ! Suc i))"
proof -
  let ?key = "\<lambda>r. (pickup_location_id r, pickup_datetime r)"
  from assms have "map ?key rides ! i \<le> map ?key rides ! Suc i"
    by (intro sorted_nth_mono) simp_all
  with assms(2) have "?key (rides ! i) \<le> ?key (rides ! Suc i)" by simp
  then show ?thesis by (auto simp: less_eq_prod_def)
qed

lemma fetch_batch_raw_data_parse_error:
  "as_datetime fromisoformat from_date = Inl e \<Longrightarrow>
   fetch_batch_raw_data fromisoformat load from_date to_date = Inl e"
  "as_datetime fromisoformat from_date = Inr f \<Longrightarrow> as_datetime fromisoformat to_date = Inl e \<Longrightarrow>
   fetch_batch_raw_data fromisoformat load from_date to_date = Inl e"
  by (simp_all add: fetch_batch_raw_data_def)

lemma fetch_batch_raw_data_type_error:
  assumes "as_datetime fromisoformat from_date = Inr f"
    and "as_datetime fromisoformat to_date = Inr t"
    and "(utcoffset f = None) \<noteq> (utcoffset t = None)"
  shows "fetch_batch_raw_data fromisoformat load from_date to_date = Inl TypeError"
proof -
  from assms(3) have "datetime_ge f t = Inl TypeError"
    by (simp add: datetime_ge_Inl_iff)
  with assms(1,2) show ?thesis by (simp add: fetch_batch_raw_data_def)
qed

lemma fetch_batch_raw_data_window_error:
  assumes "as_datetime fromisoformat from_date = Inr f"
    and "as_datetime fromisoformat to_date = Inr t"
    and "datetime_ge f t = Inr True"
  shows "fetch_batch_raw_data fromisoformat load from_date to_date
           = Inl (ValueError '''from_date' must be earlier than 'to_date'.'')"
  using assms by (simp add: fetch_batch_raw_data_def)

lemma fetch_batch_raw_data_overflow:
  assumes "as_datetime fromisoformat from_date = Inr f"
    and "as_datetime fromisoformat to_date = Inr t"
    and "datetime_ge f t = Inr False"
    and "wall f < timedelta_weeks 52 \<or> wall t < timedelta_weeks 52"
  shows "fetch_batch_raw_data fromisoformat load from_date to_date = Inl OverflowError"
  using assms by (auto simp: fetch_batch_raw_data_def datetime_sub_def)

lemma fetch_batch_raw_data_returns:
  assumes "as_datetime fromisoformat from_date = Inr f"
    and "as_datetime fromisoformat to_date = Inr t"
    and "datetime_ge f t = Inr False"
    and "timedelta_weeks 52 \<le> wall f" "timedelta_weeks 52 \<le> wall t"
    and "\<forall>year months. \<exists>rs. load year months = Inr rs
           \<and> (\<forall>r\<in>set rs. pickup_datetime r + timedelta_weeks 52 \<le> Timestamp_max)"
  shows "\<exists>rides. fetch_batch_raw_data fromisoformat load from_date to_date = Inr rides"
proof -
  let ?hf = "wall f - timedelta_weeks 52" and ?ht = "wall t - timedelta_weeks 52"
  let ?w = "timedelta_weeks 52"
  from assms(6) obtain rs1 where rs1: "load (dt_year ?hf) [dt_month ?hf] = Inr rs1"
    and s1: "\<forall>r\<in>set rs1. pickup_datetime r + ?w \<le> Timestamp_max" by blast
  from assms(6) obtain rs2 where rs2: "load (dt_year ?ht) [dt_month ?ht] = Inr rs2"
    and s2: "\<forall>r\<in>set rs2. pickup_datetime r + ?w \<le> Timestamp_max" by blast
  have a: "add_timedelta ?w (filter (\<lambda>r. pickup_datetime r \<ge> ?hf) rs1)
      = Inr (map (shift_pickup ?w) (filter (\<lambda>r. pickup_datetime r \<ge> ?hf) rs1))"
    using s1 by (simp add: add_timedelta_Inr_iff)
  have b: "add_timedelta ?w (filter (\<lambda>r. pickup_datetime r \<ge> ?hf) rs1
                                @ filter (\<lambda>r. pickup_datetime r < ?ht) rs2)
      = Inr (map (shift_pickup ?w) (filter (\<lambda>r. pickup_datetime r \<ge> ?hf) rs1
                                      @ filter (\<lambda>r. pickup_datetime r < ?ht) rs2))"
    using s1 s2 by (auto simp: add_timedelta_Inr_iff)
  from assms(1-5) rs1 rs2 a b show ?thesis
    by (simp add: fetch_batch_raw_data_def Let_def datetime_sub_def replace_tzinfo_None_def)
qed

lemma fetch_batch_raw_data_outcome:
  "(\<exists>rides. fetch_batch_raw_data fromisoformat load from_date to_date = Inr rides)
   \<or> (\<exists>e. (as_datetime fromisoformat from_date = Inl e
            \<or> as_datetime fromisoformat to_date = Inl e)
          \<and> fetch_batch_raw_data fromisoformat load from_date to_date = Inl e)
   \<or> fetch_batch_raw_data fromisoformat load from_date to_date = Inl TypeError
   \<or> fetch_batch_raw_data fromisoformat load from_date to_date
       = Inl (ValueError '''from_date' must be earlier than 'to_date'.'')
   \<or> fetch_batch_raw_data fromisoformat load from_date to_date = Inl OverflowError
   \<or> (\<exists>year months e. load year months = Inl e
          \<and> fetch_batch_raw_data fromisoformat load from_date to_date = Inl e)"
proof (cases "fetch_batch_raw_data fromisoformat load from_date to_date")
  case (Inr rides)
  then show ?thesis by simp
next
  case (Inl e)
  then have "(as_datetime fromisoformat from_date = Inl e
            \<or> as_datetime fromisoformat to_date = Inl e)
      \<or> e = TypeError
      \<or> e = ValueError '''from_date' must be earlier than 'to_date'.''
      \<or> e = OverflowError
      \<or> (\<exists>year months. load year months = Inl e)"
    unfolding fetch_batch_raw_data_def Let_def
    by (auto split: sum.splits bool.splits if_splits
        simp: datetime_ge_Inl_iff datetime_sub_Inl_iff add_timedelta_Inl_iff)
  with Inl show ?thesis by auto
qed

lemma fetch_batch_raw_data_naive:
  assumes "a < b" and "timedelta_weeks 52 \<le> a"
  shows "fetch_batch_raw_data fromisoformat load (Datetime (naive a)) (Datetime (naive b)) =
     (case load (dt_year (a - timedelta_weeks 52)) [dt_month (a - timedelta_weeks 52)] of
        Inl e \<Rightarrow> Inl e
      | Inr rides_from \<Rightarrow>
          (case
             (if dt_month (b - timedelta_weeks 52) \<noteq> dt_month (a - timedelta_weeks 52)
              then (case load (dt_year (b - timedelta_weeks 52))
                           [dt_month (b - timedelta_weeks 52)] of
                      Inl e \<Rightarrow> Inl e
                    | Inr rides_to \<Rightarrow>
                        Inr (filter (\<lambda>r. pickup_datetime r \<ge> a - timedelta_weeks 52) rides_from
                             @ filter (\<lambda>r. pickup_datetime r < b - timedelta_weeks 52) rides_to))
              else Inr (filter (\<lambda>r. pickup_datetime r \<ge> a - timedelta_weeks 52) rides_from))
           of
             Inl e \<Rightarrow> Inl e
           | Inr rides \<Rightarrow>
               (case add_timedelta (timedelta_weeks 52) rides of
                  Inl e \<Rightarrow> Inl e
                | Inr rides \<Rightarrow> Inr (sort_values rides))))"
proof -
  have ge: "datetime_ge (naive a) (naive b) = Inr False"
    using assms(1) by (simp add: datetime_ge_naive)
  have s1: "datetime_sub (naive a) (timedelta_weeks 52)
      = Inr ((naive a)\<lparr>wall := a - timedelta_weeks 52\<rparr>)"
    using assms(2) by (simp add: datetime_sub_def naive_def)
  have s2: "datetime_sub (naive b) (timedelta_weeks 52)
      = Inr ((naive b)\<lparr>wall := b - timedelta_weeks 52\<rparr>)"
    using assms by (simp add: datetime_sub_def naive_def)
  show ?thesis
    unfolding fetch_batch_raw_data_def
    by (simp add: ge s1 s2 replace_tzinfo_None_def Let_def split: sum.splits)
qed

text \<open>
  Claim C8. For every valid window (dates that are datetimes or parse, the first
  strictly earlier than the second) the rows \<^verbatim>\<open>fetch_batch_raw_data\<close> returns are
  sorted by \<^verbatim>\<open>(pickup_location_id, pickup_datetime)\<close>: of two consecutive rows, the
  first has the smaller location id, or the same location id and a pickup time that is
  not later. The function does return rows whenever the loader does and no date
  runs out of its range: both dates are at least 52 weeks after \<^verbatim>\<open>datetime.min\<close>,
  and every timestamp loaded, moved forward 52 weeks, is one a column can hold.
\<close>

theorem fetch_batch_raw_data_sorted:
  assumes "as_datetime fromisoformat from_date = Inr f"
    and "as_datetime fromisoformat to_date = Inr t"
    and "datetime_ge f t = Inr False"
  shows "(\<forall>rides. fetch_batch_raw_data fromisoformat load from_date to_date = Inr rides \<longrightarrow>
            sorted (map (\<lambda>r. (pickup_location_id r, pickup_datetime r)) rides)
          \<and> (\<forall>i. Suc i < length rides \<longrightarrow>
                 pickup_location_id (rides ! i) < pickup_location_id (rides ! Suc i)
               \<or> (pickup_location_id (rides ! i) = pickup_location_id (rides ! Suc i)
                  \<and> pickup_datetime (rides ! i) \<le> pickup_datetime (rides ! Suc i))))
       \<and> (timedelta_weeks 52 \<le> wall f \<and> timedelta_weeks 52 \<le> wall t
            \<and> (\<forall>year months. \<exists>rs. load year months = Inr rs
                  \<and> (\<forall>r\<in>set rs. pickup_datetime r + timedelta_weeks 52 \<le> Timestamp_max)) \<longrightarrow>
            (\<exists>rides. fetch_batch_raw_data fromisoformat load from_date to_date = Inr rides))"
proof (intro conjI allI impI)
  fix rides
  assume r: "fetch_batch_raw_data fromisoformat load from_date to_date = Inr rides"
  then obtain rs where "rides = sort_values rs"
    using fetch_batch_raw_data_Inr_sort_values by blast
  then show s: "sorted (map (\<lambda>r. (pickup_location_id r, pickup_datetime r)) rides)"
    by (simp add: sorted_sort_values)
  fix i
  assume "Suc i < length rides"
  with s show "pickup_location_id (rides ! i) < pickup_location_id (rides ! Suc i)
       \<or> (pickup_location_id (rides ! i) = pickup_location_id (rides ! Suc i)
          \<and> pickup_datetime (rides ! i) \<le> pickup_datetime (rides ! Suc i))"
    by (rule sorted_pairs_consecutive)
next
  assume a: "timedelta_weeks 52 \<le> wall f \<and> timedelta_weeks 52 \<le> wall t
            \<and> (\<forall>year months. \<exists>rs. load year months = Inr rs
                  \<and> (\<forall>r\<in>set rs. pickup_datetime r + timedelta_weeks 52 \<le> Timestamp_max))"
  from a have a1: "timedelta_weeks 52 \<le> wall f" by (rule conjunct1)
  from a have a2: "timedelta_weeks 52 \<le> wall t" by (rule conjunct2 [THEN conjunct1])
  from a have a3: "\<forall>year months. \<exists>rs. load year months = Inr rs
                  \<and> (\<forall>r\<in>set rs. pickup_datetime r + timedelta_weeks 52 \<le> Timestamp_max)"
    by (rule conjunct2 [THEN conjunct2])
  from assms a1 a2 a3
  show "\<exists>rides. fetch_batch_raw_data fromisoformat load from_date to_date = Inr rides"
    by (rule fetch_batch_raw_data_returns)
qed

lemmas mk_datetime_defs =
  mk_datetime_def ymd2ord_def days_before_year_def days_before_month_def DAYS_BEFORE_MONTH_def
  is_leap_def us_per_day_def us_per_hour_def timedelta_weeks_def

lemma march_2024_window:
  "mk_datetime 2024 3 1 0 < mk_datetime 2024 3 2 0"
  "timedelta_weeks 52 \<le> mk_datetime 2024 3 1 0"
  "mk_datetime 2024 3 1 0 - timedelta_weeks 52 = mk_datetime 2023 3 3 0"
  "mk_datetime 2024 3 2 0 - timedelta_weeks 52 = mk_datetime 2023 3 4 0"
  "mk_datetime 2024 3 2 0 < mk_datetime 2024 4 2 0"
  "timedelta_weeks 52 \<le> mk_datetime 2024 3 2 0"
  "mk_datetime 2024 4 2 0 - timedelta_weeks 52 = mk_datetime 2023 4 4 0"
  by (simp_all add: mk_datetime_defs)

lemma year_month_2023:
  "dt_year (mk_datetime 2023 3 3 0) = 2023" "dt_month (mk_datetime 2023 3 3 0) = 3"
  "dt_year (mk_datetime 2023 3 4 0) = 2023" "dt_month (mk_datetime 2023 3 4 0) = 3"
  "dt_year (mk_datetime 2023 4 4 0) = 2023" "dt_month (mk_datetime 2023 4 4 0) = 4"
  by (simp_all add: calendar_defs Let_def)

text \<open>
  Claim C1 fails on the code when the two shifted dates fall in the same calendar month:
  the rows of that month are filtered by the lower bound only. With the window
  2024-03-01 to 2024-03-02 the ride of 2023-03-10 is returned, shifted to 2024-03-08,
  which is after the end of the window.
\<close>

theorem fetch_batch_raw_data_same_month_beyond_to_date:
  "fetch_batch_raw_data no_iso_string march_2023_loader
       (Datetime (naive (mk_datetime 2024 3 1 0))) (Datetime (naive (mk_datetime 2024 3 2 0)))
     = Inr [\<lparr>pickup_datetime = mk_datetime 2024 3 8 0, pickup_location_id = 7\<rparr>]
   \<and> mk_datetime 2024 3 2 0 \<le> mk_datetime 2024 3 8 0"
  unfolding fetch_batch_raw_data_naive [OF march_2024_window(1,2)] march_2024_window(3,4)
    year_month_2023
  by (simp add: march_2023_loader_def sort_values_def shift_pickup_def add_timedelta_def
      Timestamp_max_def epoch_def mk_datetime_defs)

lemma example_fetch:
  "fetch_batch_raw_data no_iso_string example_loader
       (Datetime (naive (mk_datetime 2024 3 2 0))) (Datetime (naive (mk_datetime 2024 4 2 0)))
     = Inr [\<lparr>pickup_datetime = mk_datetime 2024 3 3 12, pickup_location_id = 4\<rparr>,
            \<lparr>pickup_datetime = mk_datetime 2024 3 30 6, pickup_location_id = 4\<rparr>,
            \<lparr>pickup_datetime = mk_datetime 2024 3 8 0, pickup_location_id = 7\<rparr>]"
  unfolding fetch_batch_raw_data_naive [OF march_2024_window(5,6)] march_2024_window(4,7)
    year_month_2023
  by (simp add: example_loader_def sort_values_def shift_pickup_def add_timedelta_def
      Timestamp_max_def epoch_def mk_datetime_defs)

theorem fetch_batch_raw_data_sorted_witness:
  "fetch_batch_raw_data no_iso_string example_loader
       (Datetime (naive (mk_datetime 2024 3 2 0))) (Datetime (naive (mk_datetime 2024 4 2 0)))
     = Inr [\<lparr>pickup_datetime = mk_datetime 2024 3 3 12, pickup_location_id = 4\<rparr>,
            \<lparr>pickup_datetime = mk_datetime 2024 3 30 6, pickup_location_id = 4\<rparr>,
            \<lparr>pickup_datetime = mk_datetime 2024 3 8 0, pickup_location_id = 7\<rparr>]
   \<and> sorted (map (\<lambda>r. (pickup_location_id r, pickup_datetime r))
       [\<lparr>pickup_datetime = mk_datetime 2024 3 3 12, pickup_location_id = 4\<rparr>,
        \<lparr>pickup_datetime = mk_datetime 2024 3 30 6, pickup_location_id = 4\<rparr>,
        \<lparr>pickup_datetime = mk_datetime 2024 3 8 0, pickup_location_id = 7\<rparr>])"
proof -
  have f: "as_datetime no_iso_string (Datetime (naive (mk_datetime 2024 3 2 0)))
             = Inr (naive (mk_datetime 2024 3 2 0))"
    and t: "as_datetime no_iso_string (Datetime (naive (mk_datetime 2024 4 2 0)))
             = Inr (naive (mk_datetime 2024 4 2 0))"
    by simp_all
  have lt: "datetime_ge (naive (mk_datetime 2024 3 2 0)) (naive (mk_datetime 2024 4 2 0))
      = Inr False"
    by (simp add: datetime_ge_naive calendar_defs)
  note inst = fetch_batch_raw_data_sorted [OF f t lt, of example_loader]
  note sorted_rows = inst [THEN conjunct1, rule_format, OF example_fetch, THEN conjunct1]
  from example_fetch sorted_rows show ?thesis by (rule conjI)
qed

section \<open>What the helpers raise\<close>

lemma transform_outcome:
  "(\<exists>Y. transform self X = Inr Y)
   \<or> ((''pickup_hour'' \<notin> set (columns X) \<or> ''pickup_location_id'' \<notin> set (columns X))
        \<and> transform self X = Inl KeyError)
   \<or> (''pickup_hour'' \<in> set (columns X)
        \<and> (\<forall>ts. getitem X ''pickup_hour'' \<noteq> Inr (Column (Datetimes ts)))
        \<and> transform self X = Inl AttributeError)"
proof (cases "getitem X ''pickup_hour''")
  case (Inl e)
  then have "''pickup_hour'' \<notin> set (columns X)" by (simp add: getitem_Inl_iff)
  then show ?thesis by (simp add: transform_no_pickup_hour)
next
  case (Inr sel)
  then have present: "''pickup_hour'' \<in> set (columns X)"
    by (cases "''pickup_hour'' \<in> set (columns X)") (simp_all add: getitem_def labelled_Nil_iff [symmetric])
  show ?thesis
  proof (cases "\<exists>ts. sel = Column (Datetimes ts)")
    case True
    then obtain ts where ph: "getitem X ''pickup_hour'' = Inr (Column (Datetimes ts))"
      using Inr by blast
    show ?thesis
    proof (cases "''pickup_location_id'' \<in> set (columns X)")
      case True
      from transform_result [OF ph True, of self]
      have "\<exists>Y. transform self X = Inr Y" by (rule exI)
      then show ?thesis ..
    next
      case False
      with ph have "transform self X = Inl KeyError" by (rule transform_no_location)
      with False show ?thesis by simp
    qed
  next
    case False
    then have no: "\<forall>ts. sel \<noteq> Column (Datetimes ts)" by simp
    with Inr have "transform self X = Inl AttributeError" by (rule transform_no_accessor)
    with present Inr no show ?thesis by simp
  qed
qed

text \<open>
  Claim C3, as amended. Each helper returns normally or raises one of the following, on
  every input. \<^verbatim>\<open>fetch_batch_raw_data\<close> raises what \<^verbatim>\<open>datetime.fromisoformat\<close>
  raises on a string that does not parse; \<^verbatim>\<open>TypeError\<close> when one date is naive and
  the other aware; \<^verbatim>\<open>ValueError\<close> whenever \<^verbatim>\<open>from_date\<close> is not strictly earlier
  than \<^verbatim>\<open>to_date\<close>; \<^verbatim>\<open>OverflowError\<close> when a date is less than 52 weeks after
  \<^verbatim>\<open>datetime.min\<close>, or a timestamp moved forward 52 weeks is beyond the last
  timestamp; or what the loader raises. With a loader that returns and dates and
  timestamps in range it returns. \<^verbatim>\<open>average_rides_last_4_weeks\<close> raises
  \<^verbatim>\<open>ValueError\<close> for a missing lag column, or \<^verbatim>\<open>TypeError\<close> when the lag columns
  are there but not all numeric. \<^verbatim>\<open>TemporalFeatureEngineer.transform\<close> raises
  \<^verbatim>\<open>KeyError\<close> when \<^verbatim>\<open>pickup_hour\<close> or \<^verbatim>\<open>pickup_location_id\<close> is missing, or
  \<^verbatim>\<open>AttributeError\<close> when \<^verbatim>\<open>pickup_hour\<close> is not one column of datetimes.
\<close>

theorem helpers_failure_semantics:
  "((\<exists>rides. fetch_batch_raw_data fromisoformat load from_date to_date = Inr rides)
    \<or> (\<exists>e. (as_datetime fromisoformat from_date = Inl e
             \<or> as_datetime fromisoformat to_date = Inl e)
           \<and> fetch_batch_raw_data fromisoformat load from_date to_date = Inl e)
    \<or> fetch_batch_raw_data fromisoformat load from_date to_date = Inl TypeError
    \<or> fetch_batch_raw_data fromisoformat load from_date to_date
        = Inl (ValueError '''from_date' must be earlier than 'to_date'.'')
    \<or> fetch_batch_raw_data fromisoformat load from_date to_date = Inl OverflowError
    \<or> (\<exists>year months e. load year months = Inl e
           \<and> fetch_batch_raw_data fromisoformat load from_date to_date = Inl e))
   \<and> (as_datetime fromisoformat from_date = Inr f \<and> as_datetime fromisoformat to_date = Inr t \<longrightarrow>
        ((utcoffset f = None) \<noteq> (utcoffset t = None) \<longrightarrow>
           fetch_batch_raw_data fromisoformat load from_date to_date = Inl TypeError)
      \<and> (datetime_ge f t = Inr True \<longrightarrow>
           fetch_batch_raw_data fromisoformat load from_date to_date
             = Inl (ValueError '''from_date' must be earlier than 'to_date'.''))
      \<and> (datetime_ge f t = Inr False
           \<and> (wall f < timedelta_weeks 52 \<or> wall t < timedelta_weeks 52) \<longrightarrow>
           fetch_batch_raw_data fromisoformat load from_date to_date = Inl OverflowError)
      \<and> (datetime_ge f t = Inr False
           \<and> timedelta_weeks 52 \<le> wall f \<and> timedelta_weeks 52 \<le> wall t
           \<and> (\<forall>year months. \<exists>rs. load year months = Inr rs
                 \<and> (\<forall>r\<in>set rs. pickup_datetime r + timedelta_weeks 52 \<le> Timestamp_max)) \<longrightarrow>
           (\<exists>rides. fetch_batch_raw_data fromisoformat load from_date to_date = Inr rides)))
   \<and> ((\<exists>Y. average_rides_last_4_weeks lib X = Inr Y)
      \<or> (\<exists>c\<in>set last_4_weeks_columns. c \<notin> set (columns X)
           \<and> average_rides_last_4_weeks lib X
               = Inl (ValueError (''Missing required column: '' @ c)))
      \<or> (set last_4_weeks_columns \<subseteq> set (columns X)
           \<and> \<not> list_all is_Numeric (lag_columns X)
           \<and> average_rides_last_4_weeks lib X = Inl TypeError))
   \<and> ((\<exists>Y. transform self X' = Inr Y)
      \<or> ((''pickup_hour'' \<notin> set (columns X') \<or> ''pickup_location_id'' \<notin> set (columns X'))
           \<and> transform self X' = Inl KeyError)
      \<or> (''pickup_hour'' \<in> set (columns X')
           \<and> (\<forall>ts. getitem X' ''pickup_hour'' \<noteq> Inr (Column (Datetimes ts)))
           \<and> transform self X' = Inl AttributeError))"
proof (intro conjI impI)
  show "(\<exists>rides. fetch_batch_raw_data fromisoformat load from_date to_date = Inr rides)
    \<or> (\<exists>e. (as_datetime fromisoformat from_date = Inl e
             \<or> as_datetime fromisoformat to_date = Inl e)
           \<and> fetch_batch_raw_data fromisoformat load from_date to_date = Inl e)
    \<or> fetch_batch_raw_data fromisoformat load from_date to_date = Inl TypeError
    \<or> fetch_batch_raw_data fromisoformat load from_date to_date
        = Inl (ValueError '''from_date' must be earlier than 'to_date'.'')
    \<or> fetch_batch_raw_data fromisoformat load from_date to_date = Inl OverflowError
    \<or> (\<exists>year months e. load year months = Inl e
           \<and> fetch_batch_raw_data fromisoformat load from_date to_date = Inl e)"
    by (rule fetch_batch_raw_data_outcome)
next
  assume p: "as_datetime fromisoformat from_date = Inr f \<and> as_datetime fromisoformat to_date = Inr t"
    and m: "(utcoffset f = None) \<noteq> (utcoffset t = None)"
  from p [THEN conjunct1] p [THEN conjunct2] m
  show "fetch_batch_raw_data fromisoformat load from_date to_date = Inl TypeError"
    by (rule fetch_batch_raw_data_type_error)
next
  assume p: "as_datetime fromisoformat from_date = Inr f \<and> as_datetime fromisoformat to_date = Inr t"
    and g: "datetime_ge f t = Inr True"
  from p [THEN conjunct1] p [THEN conjunct2] g
  show "fetch_batch_raw_data fromisoformat load from_date to_date
             = Inl (ValueError '''from_date' must be earlier than 'to_date'.'')"
    by (rule fetch_batch_raw_data_window_error)
next
  assume p: "as_datetime fromisoformat from_date = Inr f \<and> as_datetime fromisoformat to_date = Inr t"
    and g: "datetime_ge f t = Inr False
           \<and> (wall f < timedelta_weeks 52 \<or> wall t < timedelta_weeks 52)"
  from p [THEN conjunct1] p [THEN conjunct2] g [THEN conjunct1] g [THEN conjunct2]
  show "fetch_batch_raw_data fromisoformat load from_date to_date = Inl OverflowError"
    by (rule fetch_batch_raw_data_overflow)
next
  assume p: "as_datetime fromisoformat from_date = Inr f \<and> as_datetime fromisoformat to_date = Inr t"
    and g: "datetime_ge f t = Inr False
           \<and> timedelta_weeks 52 \<le> wall f \<and> timedelta_weeks 52 \<le> wall t
           \<and> (\<forall>year months. \<exists>rs. load year months = Inr rs
                 \<and> (\<forall>r\<in>set rs. pickup_datetime r + timedelta_weeks 52 \<le> Timestamp_max))"
  from p [THEN conjunct1] p [THEN conjunct2] g [THEN conjunct1]
    g [THEN conjunct2, THEN conjunct1] g [THEN conjunct2, THEN conjunct2, THEN conjunct1]
    g [THEN conjunct2, THEN conjunct2, THEN conjunct2]
  show "\<exists>rides. fetch_batch_raw_data fromisoformat load from_date to_date = Inr rides"
    by (rule fetch_batch_raw_data_returns)
next
  show "(\<exists>Y. average_rides_last_4_weeks lib X = Inr Y)
      \<or> (\<exists>c\<in>set last_4_weeks_columns. c \<notin> set (columns X)
           \<and> average_rides_last_4_weeks lib X
               = Inl (ValueError (''Missing required column: '' @ c)))
      \<or> (set last_4_weeks_columns \<subseteq> set (columns X)
           \<and> \<not> list_all is_Numeric (lag_columns X)
           \<and> average_rides_last_4_weeks lib X = Inl TypeError)"
    by (rule average_rides_last_4_weeks_outcome)
next
  show "(\<exists>Y. transform self X' = Inr Y)
      \<or> ((''pickup_hour'' \<notin> set (columns X') \<or> ''pickup_location_id'' \<notin> set (columns X'))
           \<and> transform self X' = Inl KeyError)
      \<or> (''pickup_hour'' \<in> set (columns X')
           \<and> (\<forall>ts. getitem X' ''pickup_hour'' \<noteq> Inr (Column (Datetimes ts)))
           \<and> transform self X' = Inl AttributeError)"
    by (rule transform_outcome)
qed

lemma june_of_year_1: "wall (naive (mk_datetime 1 6 1 0)) < timedelta_weeks 52"
  by (simp add: naive_def mk_datetime_defs)

text \<open>
  The claim as stated fails: each of these calls raises, and no column is missing from
  anything. The fetch raises on a window that is empty, on a naive and an aware date,
  and on a date in the first year; the rolling average raises on a lag column of
  datetimes; the extractor raises on a numeric \<^verbatim>\<open>pickup_hour\<close>.
\<close>

theorem helpers_failure_semantics_counterexample:
  "fetch_batch_raw_data no_iso_string example_loader
       (Datetime (naive (mk_datetime 2024 3 1 0))) (Datetime (naive (mk_datetime 2024 3 1 0)))
     = Inl (ValueError '''from_date' must be earlier than 'to_date'.'')
   \<and> fetch_batch_raw_data no_iso_string example_loader
       (Datetime (naive (mk_datetime 2024 3 1 0)))
       (Datetime \<lparr>wall = mk_datetime 2024 3 2 0, utcoffset = Some 0\<rparr>)
     = Inl TypeError
   \<and> fetch_batch_raw_data no_iso_string example_loader
       (Datetime (naive (mk_datetime 1 6 1 0))) (Datetime (naive (mk_datetime 2024 3 2 0)))
     = Inl OverflowError
   \<and> average_rides_last_4_weeks example_library
       [(''rides_t-168'', Numeric [Num 1]),
        (''rides_t-336'', Numeric [Num 2]),
        (''rides_t-504'', Numeric [Num 3]),
        (''rides_t-672'', Datetimes [Some (mk_datetime 2023 9 1 13)])]
     = Inl TypeError
   \<and> transform TemporalFeatureEngineer
       [(''pickup_hour'', Numeric [Num 13]), (''pickup_location_id'', Numeric [Num 4])]
     = Inl AttributeError"
proof (intro conjI)
  show "fetch_batch_raw_data no_iso_string example_loader
       (Datetime (naive (mk_datetime 2024 3 1 0))) (Datetime (naive (mk_datetime 2024 3 1 0)))
     = Inl (ValueError '''from_date' must be earlier than 'to_date'.'')"
    by (simp add: fetch_batch_raw_data_def datetime_ge_naive)
  show "fetch_batch_raw_data no_iso_string example_loader
       (Datetime (naive (mk_datetime 2024 3 1 0)))
       (Datetime \<lparr>wall = mk_datetime 2024 3 2 0, utcoffset = Some 0\<rparr>)
     = Inl TypeError"
    by (simp add: fetch_batch_raw_data_def datetime_ge_def naive_def)
  have "datetime_ge (naive (mk_datetime 1 6 1 0)) (naive (mk_datetime 2024 3 2 0)) = Inr False"
    by (simp add: datetime_ge_naive mk_datetime_defs)
  then show "fetch_batch_raw_data no_iso_string example_loader
       (Datetime (naive (mk_datetime 1 6 1 0))) (Datetime (naive (mk_datetime 2024 3 2 0)))
     = Inl OverflowError"
    using june_of_year_1 by (simp add: fetch_batch_raw_data_def datetime_sub_def)
  show "average_rides_last_4_weeks example_library
       [(''rides_t-168'', Numeric [Num 1]),
        (''rides_t-336'', Numeric [Num 2]),
        (''rides_t-504'', Numeric [Num 3]),
        (''rides_t-672'', Datetimes [Some (mk_datetime 2023 9 1 13)])]
     = Inl TypeError"
    by (simp add: average_rides_last_4_weeks_def last_4_weeks_columns_eq columns_def getitems_def
        labelled_def mean_axis1_def)
  show "transform TemporalFeatureEngineer
       [(''pickup_hour'', Numeric [Num 13]), (''pickup_location_id'', Numeric [Num 4])]
     = Inl AttributeError"
    by (simp add: transform_def getitem_def labelled_def dt_hour_series_def)
qed

theorem helpers_failure_semantics_witness:
  "fetch_batch_raw_data no_iso_string example_loader
       (Datetime (naive (mk_datetime 2024 4 2 0))) (Datetime (naive (mk_datetime 2024 3 2 0)))
     = Inl (ValueError '''from_date' must be earlier than 'to_date'.'')
   \<and> (\<exists>rides. fetch_batch_raw_data no_iso_string example_loader
          (Datetime (naive (mk_datetime 2024 3 2 0))) (Datetime (naive (mk_datetime 2024 4 2 0)))
        = Inr rides)
   \<and> fetch_batch_raw_data no_iso_string example_loader
       (Datetime (naive (mk_datetime 1 6 1 0))) (Datetime (naive (mk_datetime 2024 3 2 0)))
     = Inl OverflowError
   \<and> fetch_batch_raw_data no_iso_string example_loader
       (Datetime (naive (mk_datetime 2024 3 2 0)))
       (Datetime \<lparr>wall = mk_datetime 2024 4 2 0, utcoffset = Some 0\<rparr>)
     = Inl TypeError
   \<and> (\<exists>c\<in>set last_4_weeks_columns. c \<notin> set (columns [])
        \<and> average_rides_last_4_weeks example_library []
            = Inl (ValueError (''Missing required column: '' @ c)))
   \<and> (\<exists>Y. transform TemporalFeatureEngineer example_frame = Inr Y)"
proof -
  let ?mar = "naive (mk_datetime 2024 3 2 0)" and ?apr = "naive (mk_datetime 2024 4 2 0)"
  let ?one = "naive (mk_datetime 1 6 1 0)"
  let ?aware = "\<lparr>wall = mk_datetime 2024 4 2 0, utcoffset = Some 0\<rparr>"
  have total: "\<forall>year months. \<exists>rs. example_loader year months = Inr rs
      \<and> (\<forall>r\<in>set rs. pickup_datetime r + timedelta_weeks 52 \<le> Timestamp_max)"
    by (simp add: example_loader_def Timestamp_max_def epoch_def mk_datetime_defs)
  have ge1: "datetime_ge ?apr ?mar = Inr True"
    and ge2: "datetime_ge ?mar ?apr = Inr False"
    and ge3: "datetime_ge ?one ?mar = Inr False"
    by (simp_all add: datetime_ge_naive mk_datetime_defs)
  have range: "timedelta_weeks 52 \<le> wall ?mar" "timedelta_weeks 52 \<le> wall ?apr"
    by (simp_all add: naive_def mk_datetime_defs)
  have mixed: "(utcoffset ?mar = None) \<noteq> (utcoffset ?aware = None)"
    by (simp add: naive_def)
  have noret: "\<not> (\<exists>Y. average_rides_last_4_weeks example_library [] = Inr Y)"
    by (simp add: average_rides_last_4_weeks_def last_4_weeks_columns_eq columns_def)
  have nosub: "\<not> set last_4_weeks_columns \<subseteq> set (columns [])"
    by (simp add: last_4_weeks_columns_eq columns_def)
  have cols: "''pickup_hour'' \<in> set (columns example_frame)"
    "''pickup_location_id'' \<in> set (columns example_frame)"
    by (simp_all add: example_frame_def columns_def)
  have dt: "getitem example_frame ''pickup_hour''
      = Inr (Column (Datetimes [Some (mk_datetime 2023 9 1 13), Some (mk_datetime 2023 9 3 0)]))"
    by (simp add: example_frame_def getitem_def labelled_def)
  note a = helpers_failure_semantics
    [of no_iso_string example_loader "Datetime ?apr" "Datetime ?mar" ?apr ?mar
        example_library "[]" TemporalFeatureEngineer example_frame]
  note b = helpers_failure_semantics
    [of no_iso_string example_loader "Datetime ?mar" "Datetime ?apr" ?mar ?apr
        example_library "[]" TemporalFeatureEngineer example_frame]
  note c = helpers_failure_semantics
    [of no_iso_string example_loader "Datetime ?one" "Datetime ?mar" ?one ?mar
        example_library "[]" TemporalFeatureEngineer example_frame]
  note d = helpers_failure_semantics
    [of no_iso_string example_loader "Datetime ?mar" "Datetime ?aware" ?mar ?aware
        example_library "[]" TemporalFeatureEngineer example_frame]
  from a [THEN conjunct2, THEN conjunct1] ge1
  have c1: "fetch_batch_raw_data no_iso_string example_loader (Datetime ?apr) (Datetime ?mar)
     = Inl (ValueError '''from_date' must be earlier than 'to_date'.'')"
    by simp
  from b [THEN conjunct2, THEN conjunct1] ge2 range total
  have c2: "\<exists>rides. fetch_batch_raw_data no_iso_string example_loader
          (Datetime ?mar) (Datetime ?apr) = Inr rides"
    by simp
  from c [THEN conjunct2, THEN conjunct1] ge3 june_of_year_1
  have c3: "fetch_batch_raw_data no_iso_string example_loader (Datetime ?one) (Datetime ?mar)
     = Inl OverflowError"
    by simp
  from d [THEN conjunct2, THEN conjunct1] mixed
  have c4: "fetch_batch_raw_data no_iso_string example_loader (Datetime ?mar) (Datetime ?aware)
     = Inl TypeError"
    by simp
  from a [THEN conjunct2, THEN conjunct2, THEN conjunct1] noret nosub
  have c5: "\<exists>c\<in>set last_4_weeks_columns. c \<notin> set (columns [])
        \<and> average_rides_last_4_weeks example_library []
            = Inl (ValueError (''Missing required column: '' @ c))"
    by blast
  from a [THEN conjunct2, THEN conjunct2, THEN conjunct2] cols dt
  have c6: "\<exists>Y. transform TemporalFeatureEngineer example_frame = Inr Y"
    by auto
  from c1 c2 c3 c4 c5 c6 show ?thesis by (intro conjI)
qed

section \<open>Properties of the time-based split\<close>




















section \<open>Properties of the modelling notebooks\<close>

lemma pipeline_cell_Inr:
  assumes "pipeline_cell lib predict mean_absolute_error best_model X_test y_test h = (Inr c, h')"
  shows "\<exists>predictions. pipeline_predict lib predict best_model X_test h = (Inr predictions, h')
           \<and> c = \<lparr>logged_model = best_model, input_data = X_test,
                   experiment_name = ''LGBMRegressorHyper'',
                   metric_name = ''mean_absolute_error'',
                   score = mean_absolute_error y_test predictions\<rparr>"
  using assms
  by (auto simp: pipeline_cell_def Let_def split: prod.splits sum.splits)

lemma pipeline_cell_Inl:
  assumes "pipeline_predict lib predict best_model X_test h = (Inl e, h')"
  shows "pipeline_cell lib predict mean_absolute_error best_model X_test y_test h = (Inl e, h')"
  using assms by (simp add: pipeline_cell_def)

lemma example_transform_average:
  "transform TemporalFeatureEngineer
     (setitem example_frame ''average_rides_last_4_weeks'' (Numeric [Num (11 / 4), Num (7 / 4)]))
     = Inr [(''rides_t-672'', Numeric [Num 5, Num 1]),
            (''rides_t-504'', Numeric [Num 3, Num 4]),
            (''rides_t-336'', Numeric [Num 2, Num 0]),
            (''rides_t-168'', Numeric [Num 1, Num 2]),
            (''target'', Numeric [Num 6, Num 3]),
            (''average_rides_last_4_weeks'', Numeric [Num (11 / 4), Num (7 / 4)]),
            (''hour'', Numeric [Num 13, Num 0]),
            (''day_of_week'', Numeric [Num 4, Num 6])]"
  by (simp add: transform_def getitem_def labelled_def dt_hour_series_def dt_dayofweek_series_def
      setitem_def columns_def drop_columns_def example_frame_def example_fields)

lemma example_pipeline_predict:
  "\<exists>h'. pipeline_predict lib (\<lambda>m fr. length fr) () 0 [example_frame] = (Inr 8, h')"
proof -
  let ?Y1 = "setitem example_frame ''average_rides_last_4_weeks''
               (Numeric [Num (11 / 4), Num (7 / 4)])"
  have d0: "deref [example_frame] 0 = Inr example_frame" by (simp add: deref_def)
  have "average_rides_last_4_weeks_obj lib 0 [example_frame] = (Inr 0, [?Y1])"
    by (simp add: average_rides_last_4_weeks_obj_valid [OF d0] example_average)
  then have s1: "FunctionTransformer_transform (add_feature_average_rides_last_4_weeks lib) 0
                   [example_frame] = (Inr 0, [?Y1])"
    by (simp add: FunctionTransformer_transform_def add_feature_average_rides_last_4_weeks_def)
  have d1: "deref [?Y1] 0 = Inr ?Y1" by (simp add: deref_def)
  from transform_obj_valid [OF d1, of TemporalFeatureEngineer] obtain fr' where
    "transform_obj TemporalFeatureEngineer 0 [?Y1] =
       (case transform TemporalFeatureEngineer ?Y1 of
          Inl e \<Rightarrow> (Inl e, [?Y1] @ [fr'])
        | Inr Y \<Rightarrow> (Inr (Suc (length [?Y1])), [?Y1] @ [fr', Y]))" ..
  then have s2: "\<exists>Y. length Y = 8
      \<and> transform_obj add_temporal_features 0 [?Y1] = (Inr 2, [?Y1, fr', Y])"
    by (simp add: example_transform_average add_temporal_features_def)
  then obtain Y where Y: "length Y = 8"
    "transform_obj add_temporal_features 0 [?Y1] = (Inr 2, [?Y1, fr', Y])" by blast
  have d2: "deref [?Y1, fr', Y] 2 = Inr Y" by (simp add: deref_def)
  from s1 Y d2 have "pipeline_predict lib (\<lambda>m fr. length fr) () 0 [example_frame]
      = (Inr 8, [?Y1, fr', Y])"
    by (simp add: pipeline_predict_def)
  then show ?thesis ..
qed

text \<open>
  Claim C7. In every modelling notebook the score passed to
  \<^verbatim>\<open>log_model_to_mlflow\<close> is \<^verbatim>\<open>mean_absolute_error(y_test, predictions)\<close>, where
  \<^verbatim>\<open>predictions\<close> is what the model passed in the same call predicts on the test
  features passed in the same call; the metric is logged under the name
  \<^verbatim>\<open>mean_absolute_error\<close>. For the pipeline, whose prediction can raise, this holds
  whenever the cell reaches the call.
\<close>

theorem logged_score_is_test_mean_absolute_error:
  "score (xgboost_cell XGBRegressor fit1 predict1 mae1 X_train1 y_train1 X_test1 y_test1)
     = mae1 y_test1
         (predict1
            (logged_model
               (xgboost_cell XGBRegressor fit1 predict1 mae1 X_train1 y_train1 X_test1 y_test1))
            (input_data
               (xgboost_cell XGBRegressor fit1 predict1 mae1 X_train1 y_train1 X_test1 y_test1)))
   \<and> logged_model
       (xgboost_cell XGBRegressor fit1 predict1 mae1 X_train1 y_train1 X_test1 y_test1)
     = fit1 (XGBRegressor 10) X_train1 y_train1
   \<and> input_data
       (xgboost_cell XGBRegressor fit1 predict1 mae1 X_train1 y_train1 X_test1 y_test1)
     = X_test1
   \<and> metric_name
       (xgboost_cell XGBRegressor fit1 predict1 mae1 X_train1 y_train1 X_test1 y_test1)
     = ''mean_absolute_error''
   \<and> score (lightgbm_cell LGBMRegressor fit2 predict2 mae2 X_train2 y_train2 X_test2 y_test2)
     = mae2 y_test2
         (predict2
            (logged_model
               (lightgbm_cell LGBMRegressor fit2 predict2 mae2 X_train2 y_train2 X_test2 y_test2))
            (input_data
               (lightgbm_cell LGBMRegressor fit2 predict2 mae2 X_train2 y_train2 X_test2 y_test2)))
   \<and> logged_model
       (lightgbm_cell LGBMRegressor fit2 predict2 mae2 X_train2 y_train2 X_test2 y_test2)
     = fit2 LGBMRegressor X_train2 y_train2
   \<and> input_data
       (lightgbm_cell LGBMRegressor fit2 predict2 mae2 X_train2 y_train2 X_test2 y_test2)
     = X_test2
   \<and> metric_name
       (lightgbm_cell LGBMRegressor fit2 predict2 mae2 X_train2 y_train2 X_test2 y_test2)
     = ''mean_absolute_error''
   \<and> (\<forall>c h'. pipeline_cell lib predict3 mae3 best_model X_test3 y_test3 h = (Inr c, h') \<longrightarrow>
          (\<exists>predictions.
              pipeline_predict lib predict3 (logged_model c) (input_data c) h
                = (Inr predictions, h')
            \<and> score c = mae3 y_test3 predictions
            \<and> logged_model c = best_model
            \<and> input_data c = X_test3
            \<and> metric_name c = ''mean_absolute_error''))"
proof -
  have x: "xgboost_cell XGBRegressor fit1 predict1 mae1 X_train1 y_train1 X_test1 y_test1
      = \<lparr>logged_model = fit1 (XGBRegressor 10) X_train1 y_train1, input_data = X_test1,
         experiment_name = ''XGBoost'', metric_name = ''mean_absolute_error'',
         score = mae1 y_test1 (predict1 (fit1 (XGBRegressor 10) X_train1 y_train1) X_test1)\<rparr>"
    by (simp add: xgboost_cell_def Let_def)
  have l: "lightgbm_cell LGBMRegressor fit2 predict2 mae2 X_train2 y_train2 X_test2 y_test2
      = \<lparr>logged_model = fit2 LGBMRegressor X_train2 y_train2, input_data = X_test2,
         experiment_name = ''LGBMRegressor'', metric_name = ''mean_absolute_error'',
         score = mae2 y_test2 (predict2 (fit2 LGBMRegressor X_train2 y_train2) X_test2)\<rparr>"
    by (simp add: lightgbm_cell_def Let_def)
  have p: "\<forall>c h'. pipeline_cell lib predict3 mae3 best_model X_test3 y_test3 h = (Inr c, h') \<longrightarrow>
          (\<exists>predictions.
              pipeline_predict lib predict3 (logged_model c) (input_data c) h
                = (Inr predictions, h')
            \<and> score c = mae3 y_test3 predictions
            \<and> logged_model c = best_model
            \<and> input_data c = X_test3
            \<and> metric_name c = ''mean_absolute_error'')"
  proof (intro allI impI)
    fix c h'
    assume "pipeline_cell lib predict3 mae3 best_model X_test3 y_test3 h = (Inr c, h')"
    from pipeline_cell_Inr [OF this] obtain predictions where
      pr: "pipeline_predict lib predict3 best_model X_test3 h = (Inr predictions, h')"
      and c: "c = \<lparr>logged_model = best_model, input_data = X_test3,
                   experiment_name = ''LGBMRegressorHyper'',
                   metric_name = ''mean_absolute_error'',
                   score = mae3 y_test3 predictions\<rparr>"
      by (elim exE conjE)
    show "\<exists>predictions.
              pipeline_predict lib predict3 (logged_model c) (input_data c) h
                = (Inr predictions, h')
            \<and> score c = mae3 y_test3 predictions
            \<and> logged_model c = best_model
            \<and> input_data c = X_test3
            \<and> metric_name c = ''mean_absolute_error''"
      apply (rule exI [of _ predictions])
      using pr c apply simp
      done
  qed
  show ?thesis
    unfolding x l using p by simp
qed

theorem logged_score_is_test_mean_absolute_error_witness:
  "\<exists>c h'. pipeline_cell example_library (\<lambda>m fr. length fr) (\<lambda>y p. p + length_series y) () 0
             (Numeric [Num 6, Num 3]) [example_frame] = (Inr c, h')
        \<and> score c = 10 \<and> input_data c = 0 \<and> metric_name c = ''mean_absolute_error''"
proof -
  obtain h' where pr: "pipeline_predict example_library (\<lambda>m fr. length fr) () 0 [example_frame]
      = (Inr 8, h')"
    using example_pipeline_predict ..
  then have cell: "pipeline_cell example_library (\<lambda>m fr. length fr) (\<lambda>y p. p + length_series y)
             () 0 (Numeric [Num 6, Num 3]) [example_frame]
      = (Inr \<lparr>logged_model = (), input_data = 0, experiment_name = ''LGBMRegressorHyper'',
              metric_name = ''mean_absolute_error'', score = 10\<rparr>, h')"
    by (simp add: pipeline_cell_def)
  note inst = logged_score_is_test_mean_absolute_error
    [where lib = example_library and ?predict3.0 = "\<lambda>m fr. length fr"
       and ?mae3.0 = "\<lambda>y p. p + length_series y"
       and best_model = "()" and ?X_test3.0 = 0 and ?y_test3.0 = "Numeric [Num 6, Num 3]"
       and h = "[example_frame]"]
  note last = inst [THEN conjunct2, THEN conjunct2, THEN conjunct2, THEN conjunct2,
      THEN conjunct2, THEN conjunct2, THEN conjunct2, THEN conjunct2, rule_format, OF cell]
  from last obtain predictions where
    a: "pipeline_predict example_library (\<lambda>m fr. length fr)
          (logged_model \<lparr>logged_model = (), input_data = 0::nat,
              experiment_name = ''LGBMRegressorHyper'',
              metric_name = ''mean_absolute_error'', score = 10::nat\<rparr>)
          (input_data \<lparr>logged_model = (), input_data = 0::nat,
              experiment_name = ''LGBMRegressorHyper'',
              metric_name = ''mean_absolute_error'', score = 10::nat\<rparr>) [example_frame]
        = (Inr predictions, h')"
    and b: "score \<lparr>logged_model = (), input_data = 0::nat,
              experiment_name = ''LGBMRegressorHyper'',
              metric_name = ''mean_absolute_error'', score = 10::nat\<rparr>
            = predictions + length_series (Numeric [Num 6, Num 3])"
    by (elim exE conjE)
  show ?thesis
    apply (rule exI, rule exI)
    apply (rule conjI)
     apply (rule cell)
    apply simp
    done
qed

end
